theory Spec2Isabelle
  imports Complex_Main "HOL-Library.Word"
begin

section \<open>Landsat datasets of torchgeo: the catalogue build and the query path\<close>

text \<open>
  The development embeds \<^verbatim>\<open>src/torchgeo/datasets/landsat.py\<close>: the constructor
  \<^verbatim>\<open>Landsat.__init__\<close>, which indexes the tiles found under a directory, and
  \<^verbatim>\<open>Landsat.__getitem__\<close>, which answers a bounding-box query with the pixels
  of one tile. Python's floats are idealised as \<open>real\<close>: the code compares
  coordinates and takes two differences, nothing else. Everything the module
  obtains from outside (the directory listing, the local time zone, the raster
  files) is a field of the record \<open>platform\<close>, so that every theorem holds for
  every file system and every raster reader.
\<close>

subsection \<open>Values exchanged with the collaborators\<close>

text \<open>
  \<^verbatim>\<open>BoundingBox\<close> of \<^verbatim>\<open>torchgeo/datasets/utils.py\<close>: six scalars in the
  order \<^verbatim>\<open>(minx, maxx, miny, maxy, mint, maxt)\<close>.
\<close>

record BoundingBox =
  minx :: real
  maxx :: real
  miny :: real
  maxy :: real
  mint :: real
  maxt :: real

text \<open>\<^verbatim>\<open>rasterio.windows.Window(col_off, row_off, width, height)\<close>.\<close>

record Window =
  col_off :: real
  row_off :: real
  width :: real
  height :: real

text \<open>
  An open raster file, as far as the module uses it: \<^verbatim>\<open>f.bounds\<close>, the tuple
  \<^verbatim>\<open>(left, bottom, right, top)\<close>, and \<^verbatim>\<open>f.read(band, window=w)\<close>, a 2-D array
  of integer samples (a list of rows), or \<open>None\<close> when the read fails.
\<close>

record DatasetReader =
  bounds :: "real \<times> real \<times> real \<times> real"
  read :: "nat \<Rightarrow> Window \<Rightarrow> int list list option"

text \<open>The naive \<^verbatim>\<open>datetime\<close> that \<^verbatim>\<open>strptime(_, "%Y%m%d")\<close> returns (midnight).\<close>

record datetime =
  year :: nat
  month :: nat
  day :: nat

text \<open>The exceptions the two methods can raise.\<close>

datatype index_error =
    ListIndexOutOfRange
  | QueryNotWithinBounds BoundingBox "BoundingBox option"

datatype error =
    IndexError index_error
  | ValueError
  | OverflowError
  | OSError
  | RasterioIOError string
  | StopIteration

record platform =
  iglob :: "string \<Rightarrow> string list"
    \<comment> \<open>\<^verbatim>\<open>glob.iglob(pattern)\<close>: the paths the file system matches, in its order\<close>
  timestamp :: "datetime \<Rightarrow> error + real"
    \<comment> \<open>\<^verbatim>\<open>datetime.timestamp()\<close> of a naive datetime: local time, or the exception the platform raises\<close>
  rasterio_open :: "string \<Rightarrow> DatasetReader option"
    \<comment> \<open>\<^verbatim>\<open>rasterio.open(path)\<close>: \<open>None\<close> when the file cannot be opened\<close>

text \<open>The raster calls a query makes, in order.\<close>

datatype io =
    RasterOpen string
  | RasterRead string nat Window

subsection \<open>The spatial-temporal index\<close>

text \<open>
  An entry of the R-tree: \<^verbatim>\<open>index.insert(id, coords, obj)\<close> stores the three, and
  a hit of \<^verbatim>\<open>intersection(..., objects=True)\<close> gives them back.
\<close>

record Item =
  item_id :: nat
  bbox :: BoundingBox
  object :: string

type_synonym Index = "Item list"

text \<open>
  Modelled from the spec: \<^verbatim>\<open>BoundingBox.intersects\<close> of
  \<^verbatim>\<open>torchgeo/datasets/utils.py\<close>, which is not among the sources. Two boxes
  intersect iff all three axis intervals overlap, the intervals closed
  (touching counts).
\<close>

definition intersects :: "BoundingBox \<Rightarrow> BoundingBox \<Rightarrow> bool" where
  "intersects a b =
     (minx a \<le> maxx b \<and> minx b \<le> maxx a \<and>
      miny a \<le> maxy b \<and> miny b \<le> maxy a \<and>
      mint a \<le> maxt b \<and> mint b \<le> maxt a)"

text \<open>
  Modelled from the spec: the index \<^verbatim>\<open>rtree.index.Index\<close> (three-dimensional,
  coordinates in the order min, max per axis), a library that is not among the
  sources. \<open>insert\<close> adds one record with no uniqueness constraint;
  \<open>intersection\<close> produces all stored records whose box intersects the query,
  and the empty sequence when there is none. The order of the hits is the
  implementation's; the model keeps the order of insertion.
\<close>

definition Index_insert :: "Index \<Rightarrow> nat \<Rightarrow> BoundingBox \<Rightarrow> string \<Rightarrow> Index" where
  "Index_insert idx i coords obj = idx @ [\<lparr>item_id = i, bbox = coords, object = obj\<rparr>]"

text \<open>
  Modelled from the spec: \<^verbatim>\<open>Index.intersection(query, objects=True)\<close> of the same
  library, the stored records whose box intersects the query.
\<close>

definition Index_intersection :: "Index \<Rightarrow> BoundingBox \<Rightarrow> Item list" where
  "Index_intersection idx query = filter (\<lambda>it. intersects (bbox it) query) idx"

text \<open>
  Modelled from the spec: \<^verbatim>\<open>GeoDataset.bounds\<close> of \<^verbatim>\<open>torchgeo/datasets/geo.py\<close>,
  which is not among the sources. The dataset-level bounds are the union of
  all tile boxes, the axis-wise minimum and maximum; an index without a record
  has no bounds.
\<close>

definition union_box :: "BoundingBox \<Rightarrow> BoundingBox \<Rightarrow> BoundingBox" where
  "union_box a b =
     \<lparr>minx = min (minx a) (minx b), maxx = max (maxx a) (maxx b),
      miny = min (miny a) (miny b), maxy = max (maxy a) (maxy b),
      mint = min (mint a) (mint b), maxt = max (maxt a) (maxt b)\<rparr>"

text \<open>
  Modelled from the spec: the bounds of the whole index, \<^verbatim>\<open>self.bounds\<close> in
  \<^verbatim>\<open>__getitem__\<close>; \<open>None\<close> for an index without a record.
\<close>

fun Index_bounds :: "Index \<Rightarrow> BoundingBox option" where
  "Index_bounds [] = None"
| "Index_bounds (it # its) = Some (foldl union_box (bbox it) (map bbox its))"

subsection \<open>Strings and dates\<close>

text \<open>\<^verbatim>\<open>posixpath.join(a, *p)\<close>.\<close>

fun os_path_join :: "string \<Rightarrow> string list \<Rightarrow> string" where
  "os_path_join path [] = path"
| "os_path_join path (b # p) =
     os_path_join
       (if take 1 b = ''/'' then b
        else if path = [] \<or> last path = CHR ''/'' then path @ b
        else path @ ''/'' @ b) p"

text \<open>\<^verbatim>\<open>posixpath.basename(p)\<close>: what follows the last slash.\<close>

definition basename :: "string \<Rightarrow> string" where
  "basename p = rev (takeWhile (\<lambda>c. c \<noteq> CHR ''/'') (rev p))"

text \<open>\<^verbatim>\<open>s.split(sep)\<close> for a one-character separator: one token more than separators.\<close>

fun split :: "char \<Rightarrow> string \<Rightarrow> string list" where
  "split sep [] = [[]]"
| "split sep (c # s) =
     (if c = sep then [] # split sep s
      else (case split sep s of
              [] \<Rightarrow> [[c]]
            | t # ts \<Rightarrow> (c # t) # ts))"

text \<open>\<^verbatim>\<open>xs[i]\<close> for \<open>i \<ge> 0\<close>: \<open>None\<close> stands for the IndexError.\<close>

definition getitem :: "'a list \<Rightarrow> nat \<Rightarrow> 'a option" where
  "getitem xs i = (if i < length xs then Some (xs ! i) else None)"

text \<open>
  \<^verbatim>\<open>datetime.strptime(s, "%Y%m%d")\<close>. CPython compiles the format to the regular
  expression
  \<^verbatim>\<open>(?P<Y>\d\d\d\d)(?P<m>1[0-2]|0[1-9]|[1-9])(?P<d>3[0-1]|[1-2]\d|0[1-9]|[1-9]| [1-9])\<close>,
  matches it at the start of the string (alternatives in order, backtracking),
  refuses a match that leaves characters over, and then builds the date, which
  refuses the year 0 and a day the month does not have. Each refusal is a
  ValueError. Digits are the ASCII digits.
\<close>

definition digit_in :: "nat \<Rightarrow> nat \<Rightarrow> char \<Rightarrow> bool" where
  "digit_in lo hi c = (48 + lo \<le> (of_char c :: nat) \<and> (of_char c :: nat) \<le> 48 + hi)"

definition digit_val :: "char \<Rightarrow> nat" where
  "digit_val c = (of_char c :: nat) - 48"

definition regex_m :: "string \<Rightarrow> (nat \<times> string) list" where
  "regex_m s =
     (case s of
        c1 # c2 # r \<Rightarrow>
          (if c1 = CHR ''1'' \<and> digit_in 0 2 c2 then [(10 + digit_val c2, r)] else []) @
          (if c1 = CHR ''0'' \<and> digit_in 1 9 c2 then [(digit_val c2, r)] else [])
      | _ \<Rightarrow> []) @
     (case s of
        c # r \<Rightarrow> (if digit_in 1 9 c then [(digit_val c, r)] else [])
      | [] \<Rightarrow> [])"

definition regex_d :: "string \<Rightarrow> (nat \<times> string) list" where
  "regex_d s =
     (case s of
        c1 # c2 # r \<Rightarrow>
          (if c1 = CHR ''3'' \<and> digit_in 0 1 c2 then [(30 + digit_val c2, r)] else []) @
          (if digit_in 1 2 c1 \<and> digit_in 0 9 c2 then [(10 * digit_val c1 + digit_val c2, r)] else []) @
          (if c1 = CHR ''0'' \<and> digit_in 1 9 c2 then [(digit_val c2, r)] else [])
      | _ \<Rightarrow> []) @
     (case s of
        c # r \<Rightarrow> (if digit_in 1 9 c then [(digit_val c, r)] else [])
      | [] \<Rightarrow> []) @
     (case s of
        c1 # c2 # r \<Rightarrow> (if c1 = CHR '' '' \<and> digit_in 1 9 c2 then [(digit_val c2, r)] else [])
      | _ \<Rightarrow> [])"

definition is_leap :: "nat \<Rightarrow> bool" where
  "is_leap y = (y mod 4 = 0 \<and> (y mod 100 \<noteq> 0 \<or> y mod 400 = 0))"

definition days_in_month :: "nat \<Rightarrow> nat \<Rightarrow> nat" where
  "days_in_month y m =
     (if m = 2 then (if is_leap y then 29 else 28)
      else if m = 4 \<or> m = 6 \<or> m = 9 \<or> m = 11 then 30
      else 31)"

definition strptime :: "string \<Rightarrow> error + datetime" where
  "strptime s =
     (case s of
        y1 # y2 # y3 # y4 # s1 \<Rightarrow>
          if digit_in 0 9 y1 \<and> digit_in 0 9 y2 \<and> digit_in 0 9 y3 \<and> digit_in 0 9 y4 then
            (case concat (map (\<lambda>(m, s2). map (\<lambda>(d, s3). (m, d, s3)) (regex_d s2)) (regex_m s1)) of
               [] \<Rightarrow> Inl ValueError
             | (m, d, s3) # _ \<Rightarrow>
                 let y = 1000 * digit_val y1 + 100 * digit_val y2 + 10 * digit_val y3 + digit_val y4
                 in if s3 \<noteq> [] then Inl ValueError
                    else if y = 0 \<or> days_in_month y m < d then Inl ValueError
                    else Inr \<lparr>year = y, month = m, day = d\<rparr>)
          else Inl ValueError
      | _ \<Rightarrow> Inl ValueError)"

subsection \<open>The Landsat classes\<close>

text \<open>
  What a subclass of the abstract class \<^verbatim>\<open>Landsat\<close> supplies: \<^verbatim>\<open>base_folder\<close>
  and \<^verbatim>\<open>band_names\<close>.
\<close>

record Landsat_class =
  base_folder :: string
  band_names :: "string list"

definition Landsat8 :: Landsat_class where
  "Landsat8 =
     \<lparr>base_folder = ''landsat_8_9'',
      band_names = [''B1'', ''B2'', ''B3'', ''B4'', ''B5'', ''B6'', ''B7'', ''B8'', ''B9'', ''B10'', ''B11'']\<rparr>"

definition Landsat9 :: Landsat_class where
  "Landsat9 = Landsat8"

definition Landsat7 :: Landsat_class where
  "Landsat7 =
     \<lparr>base_folder = ''landsat_7'',
      band_names = [''B1'', ''B2'', ''B3'', ''B4'', ''B5'', ''B6'', ''B7'', ''B8'']\<rparr>"

definition Landsat4TM :: Landsat_class where
  "Landsat4TM =
     \<lparr>base_folder = ''landsat_4_5_tm'',
      band_names = [''B1'', ''B2'', ''B3'', ''B4'', ''B5'', ''B6'', ''B7'']\<rparr>"

definition Landsat5TM :: Landsat_class where
  "Landsat5TM = Landsat4TM"

definition Landsat4MSS :: Landsat_class where
  "Landsat4MSS =
     \<lparr>base_folder = ''landsat_4_5_mss'',
      band_names = [''B1'', ''B2'', ''B3'', ''B4'']\<rparr>"

definition Landsat5MSS :: Landsat_class where
  "Landsat5MSS = Landsat4MSS"

definition Landsat1 :: Landsat_class where
  "Landsat1 =
     \<lparr>base_folder = ''landsat_1_3'',
      band_names = [''B4'', ''B5'', ''B6'', ''B7'']\<rparr>"

definition Landsat2 :: Landsat_class where
  "Landsat2 = Landsat1"

definition Landsat3 :: Landsat_class where
  "Landsat3 = Landsat1"

text \<open>
  A sample is the dictionary a query returns; a tensor is a 2-D array of
  signed 32-bit integers (read a pixel with \<open>sint\<close>).
\<close>

type_synonym tensor = "32 word list list"

type_synonym sample = "string \<rightharpoonup> tensor"

text \<open>The attributes \<^verbatim>\<open>__init__\<close> sets on the object.\<close>

record Landsat =
  root_dir :: string
  bands :: "string list"
  transforms :: "(sample \<Rightarrow> sample) option"
  index :: Index

subsection \<open>\<^verbatim>\<open>Landsat.__init__\<close>\<close>

text \<open>
  Lines 64 to 68, the body of the loop up to \<^verbatim>\<open>coords\<close>: the date is the token
  of index 3 of the base name split at underscores, the spatial bounds are the
  raster's. Nothing is caught: each failure is the exception the line raises.
\<close>

definition tile_coords :: "platform \<Rightarrow> string \<Rightarrow> error + BoundingBox" where
  "tile_coords env filename =
     (case getitem (split CHR ''_'' (basename filename)) 3 of
        None \<Rightarrow> Inl (IndexError ListIndexOutOfRange)
      | Some tok \<Rightarrow>
          (case strptime tok of
             Inl e \<Rightarrow> Inl e
           | Inr time \<Rightarrow>
               (case timestamp env time of
                  Inl e \<Rightarrow> Inl e
                | Inr ts \<Rightarrow>
                    (case rasterio_open env filename of
                       None \<Rightarrow> Inl (RasterioIOError filename)
                     | Some f \<Rightarrow>
                         (case bounds f of
                            (x0, y0, x1, y1) \<Rightarrow>
                              Inr \<lparr>minx = x0, maxx = x1, miny = y0, maxy = y1,
                                   mint = ts, maxt = ts\<rparr>)))))"

text \<open>The loop of lines 61 to 69 over the paths \<^verbatim>\<open>glob.iglob\<close> yields.\<close>

fun index_files :: "platform \<Rightarrow> string list \<Rightarrow> Index \<Rightarrow> error + Index" where
  "index_files env [] idx = Inr idx"
| "index_files env (filename # files) idx =
     (case tile_coords env filename of
        Inl e \<Rightarrow> Inl e
      | Inr coords \<Rightarrow> index_files env files (Index_insert idx 0 coords filename))"

text \<open>
  The constructor. \<^verbatim>\<open>self.bands[0]\<close> raises IndexError when both \<^verbatim>\<open>bands\<close> and
  the class's \<^verbatim>\<open>band_names\<close> are empty. An exception leaves no object: \<open>Inl\<close>.
\<close>

definition Landsat_init ::
  "platform \<Rightarrow> Landsat_class \<Rightarrow> string \<Rightarrow> string list \<Rightarrow> (sample \<Rightarrow> sample) option \<Rightarrow> error + Landsat"
where
  "Landsat_init env cls root_arg bands_arg transforms_arg =
     (let self_bands = (if bands_arg \<noteq> [] then bands_arg else band_names cls) in
      case getitem self_bands 0 of
        None \<Rightarrow> Inl (IndexError ListIndexOutOfRange)
      | Some band0 \<Rightarrow>
          (let fileglob = os_path_join root_arg [base_folder cls, ''**_'' @ band0 @ ''.TIF''] in
           case index_files env (iglob env fileglob) [] of
             Inl e \<Rightarrow> Inl e
           | Inr idx \<Rightarrow>
               Inr \<lparr>root_dir = root_arg, bands = self_bands,
                    transforms = transforms_arg, index = idx\<rparr>))"

subsection \<open>\<^verbatim>\<open>Landsat.__getitem__\<close>\<close>

text \<open>\<^verbatim>\<open>image.astype(np.int32)\<close> on integer samples: the value modulo \<open>2 ^ 32\<close>.\<close>

definition astype_int32 :: "int list list \<Rightarrow> tensor" where
  "astype_int32 arr = map (map word_of_int) arr"

text \<open>
  The query. The result pairs the raster calls made with the value returned
  or the exception raised. The check of line 83 fails when the index has no
  bounds at all.
\<close>

definition Landsat_getitem :: "platform \<Rightarrow> Landsat \<Rightarrow> BoundingBox \<Rightarrow> io list \<times> (error + sample)" where
  "Landsat_getitem env self query =
     (if \<not> (case Index_bounds (index self) of
               None \<Rightarrow> False
             | Some b \<Rightarrow> intersects query b)
      then ([], Inl (IndexError (QueryNotWithinBounds query (Index_bounds (index self)))))
      else
        let window = \<lparr>col_off = minx query, row_off = miny query,
                      width = maxx query - minx query,
                      height = maxy query - miny query\<rparr>;
            hits = Index_intersection (index self) query
        in case hits of
             [] \<Rightarrow> ([], Inl StopIteration)
           | hit # _ \<Rightarrow>
               let filename = object hit in
               (case rasterio_open env filename of
                  None \<Rightarrow> ([RasterOpen filename], Inl (RasterioIOError filename))
                | Some f \<Rightarrow>
                    (case read f 1 window of
                       None \<Rightarrow>
                         ([RasterOpen filename, RasterRead filename 1 window],
                          Inl (RasterioIOError filename))
                     | Some arr \<Rightarrow>
                         ([RasterOpen filename, RasterRead filename 1 window],
                          Inr [''image'' \<mapsto> astype_int32 arr]))))"

subsection \<open>An example platform\<close>

text \<open>
  Two Landsat 8 scenes that overlap in space and differ in date, and three
  files that the build cannot index: one without a date token, one whose
  date token is no date, and one that cannot be opened. The platform's clock
  is UTC (days from the civil date, times 86400); CPython refuses the first
  day of year 1 there with a ValueError, having looked a day back.
\<close>

definition scene_A :: string where
  "scene_A = ''data/landsat_8_9/LC08_L1TP_001002_20200101_20200114_01_T1_B1.TIF''"

definition scene_B :: string where
  "scene_B = ''data/landsat_8_9/LC08_L1TP_003004_20200202_20200214_01_T1_B1.TIF''"

definition no_date :: string where
  "no_date = ''data/landsat_8_9/preview_B1.TIF''"

definition bad_date :: string where
  "bad_date = ''data/landsat_8_9/LC08_L1TP_001002_2020XXXX_20200114_01_T1_B1.TIF''"

definition unreadable :: string where
  "unreadable = ''data/landsat_8_9/LC08_L1TP_005006_20200303_20200314_01_T1_B1.TIF''"

definition utc_timestamp :: "datetime \<Rightarrow> error + real" where
  "utc_timestamp t =
     (let y = int (year t) - (if month t \<le> 2 then 1 else 0);
          mp = (int (month t) + 9) mod 12;
          doy = (153 * mp + 2) div 5 + int (day t) - 1;
          yoe = y mod 400;
          doe = yoe * 365 + yoe div 4 - yoe div 100 + doy
      in if year t = 1 \<and> month t = 1 \<and> day t = 1 then Inl ValueError
         else Inr (real_of_int (86400 * ((y div 400) * 146097 + doe - 719468))))"

definition example_reader :: "real \<times> real \<times> real \<times> real \<Rightarrow> int list list \<Rightarrow> DatasetReader" where
  "example_reader b pixels =
     \<lparr>bounds = b, read = (\<lambda>band w. if band = 1 then Some pixels else None)\<rparr>"

definition example_platform :: "string list \<Rightarrow> platform" where
  "example_platform files =
     \<lparr>iglob = (\<lambda>pattern. if pattern = ''data/landsat_8_9/**_B1.TIF'' then files else []),
      timestamp = utc_timestamp,
      rasterio_open =
        (\<lambda>path. if path = scene_A then Some (example_reader (0, 0, 100, 100) [[7, 8], [9, 10]])
                else if path = scene_B then Some (example_reader (50, 50, 150, 150) [[70000, - 1], [4294967295, 0]])
                else None)\<rparr>"

definition box_A :: BoundingBox where
  "box_A = \<lparr>minx = 0, maxx = 100, miny = 0, maxy = 100, mint = 1577836800, maxt = 1577836800\<rparr>"

definition box_B :: BoundingBox where
  "box_B = \<lparr>minx = 50, maxx = 150, miny = 50, maxy = 150, mint = 1580601600, maxt = 1580601600\<rparr>"

definition example_dataset :: Landsat where
  "example_dataset =
     \<lparr>root_dir = ''data'', bands = band_names Landsat8, transforms = None,
      index = [\<lparr>item_id = 0, bbox = box_A, object = scene_A\<rparr>,
               \<lparr>item_id = 0, bbox = box_B, object = scene_B\<rparr>]\<rparr>"

text \<open>
  A raster whose pixels tell what was asked of it: one row holding the band
  and the window's four numbers. It tells a reader apart from one that is
  given another band or another window.
\<close>

definition echo_reader :: "real \<times> real \<times> real \<times> real \<Rightarrow> DatasetReader" where
  "echo_reader b =
     \<lparr>bounds = b,
      read = (\<lambda>band w. Some [[int band, \<lfloor>col_off w\<rfloor>, \<lfloor>row_off w\<rfloor>,
                                  \<lfloor>width w\<rfloor>, \<lfloor>height w\<rfloor>]])\<rparr>"

definition echo_platform :: platform where
  "echo_platform =
     \<lparr>iglob = (\<lambda>pattern. []),
      timestamp = utc_timestamp,
      rasterio_open = (\<lambda>path. Some (echo_reader (0, 0, 100, 100)))\<rparr>"

section \<open>Dates in file names\<close>

text \<open>
  The model of \<^verbatim>\<open>strptime\<close> reads a token of eight digits \<open>YYYYMMDD\<close> that
  names a date of the calendar as that date.
\<close>

lemma char_eq_code: "c = d \<longleftrightarrow> (of_char c :: nat) = of_char d"
  by simp

lemma regex_m_two_digits:
  assumes "digit_in 0 9 m1" "digit_in 0 9 m2"
    and "1 \<le> 10 * digit_val m1 + digit_val m2" "10 * digit_val m1 + digit_val m2 \<le> 12"
  shows "\<exists>alts. regex_m (m1 # m2 # s) = (10 * digit_val m1 + digit_val m2, s) # alts"
proof -
  from assms have "(of_char m1 :: nat) = 48 \<or> (of_char m1 :: nat) = 49"
    by (auto simp: digit_in_def digit_val_def)
  then show ?thesis
  proof
    assume h: "(of_char m1 :: nat) = 48"
    then have "m1 = CHR ''0''" by (simp add: char_eq_code)
    with assms show ?thesis
      by (simp add: regex_m_def digit_in_def digit_val_def)
  next
    assume h: "(of_char m1 :: nat) = 49"
    then have "m1 = CHR ''1''" by (simp add: char_eq_code)
    with assms show ?thesis
      by (simp add: regex_m_def digit_in_def digit_val_def)
  qed
qed

lemma regex_d_two_digits:
  assumes "digit_in 0 9 d1" "digit_in 0 9 d2"
    and "1 \<le> 10 * digit_val d1 + digit_val d2" "10 * digit_val d1 + digit_val d2 \<le> 31"
  shows "\<exists>alts. regex_d (d1 # d2 # s) = (10 * digit_val d1 + digit_val d2, s) # alts"
proof -
  from assms have "(of_char d1 :: nat) = 48 \<or> (of_char d1 :: nat) = 49 \<or>
      (of_char d1 :: nat) = 50 \<or> (of_char d1 :: nat) = 51"
    by (auto simp: digit_in_def digit_val_def)
  then consider "d1 = CHR ''0''" | "d1 = CHR ''1''" | "d1 = CHR ''2''" | "d1 = CHR ''3''"
    by (auto simp: char_eq_code)
  then show ?thesis
  proof cases
    case 1
    with assms show ?thesis by (simp add: regex_d_def digit_in_def digit_val_def)
  next
    case 2
    with assms show ?thesis by (simp add: regex_d_def digit_in_def digit_val_def)
  next
    case 3
    with assms show ?thesis by (simp add: regex_d_def digit_in_def digit_val_def)
  next
    case 4
    with assms show ?thesis by (simp add: regex_d_def digit_in_def digit_val_def)
  qed
qed

lemma strptime_YYYYMMDD:
  assumes digits: "list_all (digit_in 0 9) [y1, y2, y3, y4, m1, m2, d1, d2]"
    and y: "y = 1000 * digit_val y1 + 100 * digit_val y2 + 10 * digit_val y3 + digit_val y4"
    and m: "m = 10 * digit_val m1 + digit_val m2"
    and d: "d = 10 * digit_val d1 + digit_val d2"
    and valid: "1 \<le> y" "1 \<le> m" "m \<le> 12" "1 \<le> d" "d \<le> days_in_month y m"
  shows "strptime [y1, y2, y3, y4, m1, m2, d1, d2] = Inr \<lparr>year = y, month = m, day = d\<rparr>"
proof -
  from digits have dig: "digit_in 0 9 y1" "digit_in 0 9 y2" "digit_in 0 9 y3" "digit_in 0 9 y4"
    "digit_in 0 9 m1" "digit_in 0 9 m2" "digit_in 0 9 d1" "digit_in 0 9 d2"
    by simp_all
  from valid(5) have "d \<le> 31" by (simp add: days_in_month_def split: if_splits)
  from regex_m_two_digits [OF dig(5,6), of "[d1, d2]"] valid(2,3) m
  obtain ma where ma: "regex_m [m1, m2, d1, d2] = (m, [d1, d2]) # ma" by auto
  from regex_d_two_digits [OF dig(7,8), of "[]"] valid(4) \<open>d \<le> 31\<close> d
  obtain da where da: "regex_d [d1, d2] = (d, []) # da" by auto
  from valid(1,5) have ok: "\<not> (y = 0 \<or> days_in_month y m < d)" by simp
  have "strptime [y1, y2, y3, y4, m1, m2, d1, d2] =
      (if y = 0 \<or> days_in_month y m < d then Inl ValueError
       else Inr \<lparr>year = y, month = m, day = d\<rparr>)"
    unfolding y by (simp add: strptime_def Let_def dig ma da del: One_nat_def)
  with ok show ?thesis by (simp only: if_False)
qed

section \<open>The loop of the constructor\<close>

text \<open>
  The loop over the matched files, with the index as modelled (an insertion
  never fails): it returns when every file gives its coordinates, having
  appended one record per file, in order, and otherwise stops at the first
  file that does not, with that file's exception.
\<close>

lemma index_files_Inr_iff:
  "index_files env files idx = Inr idx' \<longleftrightarrow>
     (\<forall>f \<in> set files. \<not> isl (tile_coords env f)) \<and>
     idx' = idx @ map (\<lambda>f. \<lparr>item_id = 0, bbox = projr (tile_coords env f), object = f\<rparr>) files"
proof (induction files arbitrary: idx)
  case Nil
  show ?case by auto
next
  case (Cons f files)
  show ?case
  proof (cases "tile_coords env f")
    case (Inl e)
    then show ?thesis by simp
  next
    case (Inr c)
    then show ?thesis
      using Cons.IH [of "Index_insert idx 0 c f"]
      by (simp add: Index_insert_def)
  qed
qed

lemma index_files_Inl_iff:
  "index_files env files idx = Inl e \<longleftrightarrow>
     (\<exists>pre f post. files = pre @ f # post \<and>
        (\<forall>g \<in> set pre. \<not> isl (tile_coords env g)) \<and> tile_coords env f = Inl e)"
proof (induction files arbitrary: idx)
  case Nil
  show ?case by simp
next
  case (Cons f files)
  show ?case
  proof (cases "tile_coords env f")
    case (Inl e')
    show ?thesis
    proof
      assume "index_files env (f # files) idx = Inl e"
      with Inl have "e' = e" by simp
      with Inl have "f # files = [] @ f # files \<and> (\<forall>g \<in> set []. \<not> isl (tile_coords env g)) \<and> tile_coords env f = Inl e"
        by simp
      then show "\<exists>pre g post. f # files = pre @ g # post \<and>
        (\<forall>g \<in> set pre. \<not> isl (tile_coords env g)) \<and> tile_coords env g = Inl e"
        by blast
    next
      assume "\<exists>pre g post. f # files = pre @ g # post \<and>
        (\<forall>g \<in> set pre. \<not> isl (tile_coords env g)) \<and> tile_coords env g = Inl e"
      then obtain pre g post where h: "f # files = pre @ g # post"
        "\<forall>g \<in> set pre. \<not> isl (tile_coords env g)" "tile_coords env g = Inl e"
        by blast
      have "pre = []"
      proof (cases pre)
        case Nil then show ?thesis .
      next
        case (Cons a as)
        with h(1) have "a = f" by simp
        with h(2) Cons Inl show ?thesis by simp
      qed
      with h Inl show "index_files env (f # files) idx = Inl e" by simp
    qed
  next
    case (Inr c)
    have "(\<exists>pre g post. f # files = pre @ g # post \<and>
        (\<forall>g \<in> set pre. \<not> isl (tile_coords env g)) \<and> tile_coords env g = Inl e)
      \<longleftrightarrow> (\<exists>pre g post. files = pre @ g # post \<and>
        (\<forall>g \<in> set pre. \<not> isl (tile_coords env g)) \<and> tile_coords env g = Inl e)"
      (is "?L \<longleftrightarrow> ?R")
    proof
      assume ?L
      then obtain pre g post where h: "f # files = pre @ g # post"
        "\<forall>g \<in> set pre. \<not> isl (tile_coords env g)" "tile_coords env g = Inl e"
        by blast
      show ?R
      proof (cases pre)
        case Nil
        with h Inr show ?thesis by simp
      next
        case (Cons a as)
        with h have "files = as @ g # post \<and> (\<forall>g \<in> set as. \<not> isl (tile_coords env g)) \<and> tile_coords env g = Inl e"
          by simp
        then show ?thesis by blast
      qed
    next
      assume ?R
      then obtain pre g post where h: "files = pre @ g # post"
        "\<forall>g \<in> set pre. \<not> isl (tile_coords env g)" "tile_coords env g = Inl e"
        by blast
      with Inr have "f # files = (f # pre) @ g # post \<and> (\<forall>g \<in> set (f # pre). \<not> isl (tile_coords env g)) \<and> tile_coords env g = Inl e"
        by simp
      then show ?L by blast
    qed
    with Inr Cons.IH [of "Index_insert idx 0 c f"] show ?thesis by simp
  qed
qed

lemma strptime_Inl: "strptime s = Inl e \<Longrightarrow> e = ValueError"
proof (cases s)
  case Nil
  then show "strptime s = Inl e \<Longrightarrow> e = ValueError" by (simp add: strptime_def)
next
  case s1: (Cons y1 r1)
  show "strptime s = Inl e \<Longrightarrow> e = ValueError"
  proof (cases r1)
    case Nil
    with s1 show "strptime s = Inl e \<Longrightarrow> e = ValueError" by (simp add: strptime_def)
  next
    case s2: (Cons y2 r2)
    show "strptime s = Inl e \<Longrightarrow> e = ValueError"
    proof (cases r2)
      case Nil
      with s1 s2 show "strptime s = Inl e \<Longrightarrow> e = ValueError" by (simp add: strptime_def)
    next
      case s3: (Cons y3 r3)
      show "strptime s = Inl e \<Longrightarrow> e = ValueError"
      proof (cases r3)
        case Nil
        with s1 s2 s3 show "strptime s = Inl e \<Longrightarrow> e = ValueError" by (simp add: strptime_def)
      next
        case s4: (Cons y4 r4)
        assume failed: "strptime s = Inl e"
        define alts where
          "alts = concat (map (\<lambda>(m, s2). map (\<lambda>(d, s3). (m, d, s3)) (regex_d s2)) (regex_m r4))"
        have unfolded: "strptime s =
            (if digit_in 0 9 y1 \<and> digit_in 0 9 y2 \<and> digit_in 0 9 y3 \<and> digit_in 0 9 y4 then
               (case alts of
                  [] \<Rightarrow> Inl ValueError
                | (m, d, s3) # _ \<Rightarrow>
                    let y = 1000 * digit_val y1 + 100 * digit_val y2 + 10 * digit_val y3 + digit_val y4
                    in if s3 \<noteq> [] then Inl ValueError
                       else if y = 0 \<or> days_in_month y m < d then Inl ValueError
                       else Inr \<lparr>year = y, month = m, day = d\<rparr>)
             else Inl ValueError)"
          unfolding alts_def strptime_def s1 s2 s3 s4 by simp
        show "e = ValueError"
        proof (cases alts)
          case Nil
          with failed show ?thesis
            unfolding unfolded by (simp split: if_splits)
        next
          case (Cons a as)
          obtain m d rest where a: "a = (m, d, rest)" by (cases a)
          from failed Cons a show ?thesis
            unfolding unfolded by (simp add: Let_def split: if_splits)
        qed
      qed
    qed
  qed
qed

lemma tile_coords_Inl_iff:
  "tile_coords env f = Inl e \<longleftrightarrow>
     (getitem (split CHR ''_'' (basename f)) 3 = None \<and> e = IndexError ListIndexOutOfRange) \<or>
     (\<exists>tok. getitem (split CHR ''_'' (basename f)) 3 = Some tok \<and>
        ((isl (strptime tok) \<and> e = ValueError) \<or>
         (\<exists>t. strptime tok = Inr t \<and>
            (timestamp env t = Inl e \<or>
             (\<exists>ts. timestamp env t = Inr ts \<and> rasterio_open env f = None \<and>
                e = RasterioIOError f)))))"
proof (cases "getitem (split CHR ''_'' (basename f)) 3")
  case None
  then show ?thesis by (auto simp add: tile_coords_def)
next
  case (Some tok)
  note tok = this
  show ?thesis
  proof (cases "strptime tok")
    case (Inl e')
    then have "e' = ValueError" by (rule strptime_Inl)
    with tok Inl show ?thesis by (auto simp add: tile_coords_def)
  next
    case (Inr t)
    note t = this
    show ?thesis
    proof (cases "timestamp env t")
      case (Inl e')
      with tok t show ?thesis by (simp add: tile_coords_def)
    next
      case (Inr ts)
      note ts = this
      show ?thesis
      proof (cases "rasterio_open env f")
        case None
        with tok t ts show ?thesis by (auto simp add: tile_coords_def)
      next
        case (Some rd)
        with tok t ts show ?thesis
          by (cases "bounds rd") (simp add: tile_coords_def)
      qed
    qed
  qed
qed

lemma tile_coords_Inr_iff:
  "tile_coords env f = Inr c \<longleftrightarrow>
     (\<exists>tok t ts rd x0 y0 x1 y1.
        getitem (split CHR ''_'' (basename f)) 3 = Some tok \<and>
        strptime tok = Inr t \<and> timestamp env t = Inr ts \<and>
        rasterio_open env f = Some rd \<and> bounds rd = (x0, y0, x1, y1) \<and>
        c = \<lparr>minx = x0, maxx = x1, miny = y0, maxy = y1, mint = ts, maxt = ts\<rparr>)"
proof (cases "getitem (split CHR ''_'' (basename f)) 3")
  case None
  then show ?thesis by (simp add: tile_coords_def)
next
  case (Some tok)
  note tok = this
  show ?thesis
  proof (cases "strptime tok")
    case (Inl e)
    with tok show ?thesis by (simp add: tile_coords_def)
  next
    case (Inr t)
    note t = this
    show ?thesis
    proof (cases "timestamp env t")
      case (Inl e)
      with tok t show ?thesis by (simp add: tile_coords_def)
    next
      case (Inr ts)
      note ts = this
      show ?thesis
      proof (cases "rasterio_open env f")
        case None
        with tok t ts show ?thesis by (simp add: tile_coords_def)
      next
        case (Some rd)
        with tok t ts show ?thesis
          by (cases "bounds rd") (auto simp add: tile_coords_def)
      qed
    qed
  qed
qed

lemma tile_coords_point_in_time:
  "tile_coords env f = Inr c \<Longrightarrow> mint c = maxt c"
  unfolding tile_coords_Inr_iff by auto

lemma index_files_nth:
  assumes "index_files env files [] = Inr idx" and "i < length files"
  shows "length idx = length files \<and>
     tile_coords env (files ! i) = Inr (bbox (idx ! i)) \<and>
     idx ! i = \<lparr>item_id = 0, bbox = bbox (idx ! i), object = files ! i\<rparr>"
proof -
  from assms(1) have all: "\<forall>f \<in> set files. \<not> isl (tile_coords env f)"
    and idx: "idx = [] @ map (\<lambda>f. \<lparr>item_id = 0, bbox = projr (tile_coords env f), object = f\<rparr>) files"
    using iffD1 [OF index_files_Inr_iff, of env files "[]" idx] by blast+
  from all assms(2) have "\<not> isl (tile_coords env (files ! i))" by simp
  then have "tile_coords env (files ! i) = Inr (projr (tile_coords env (files ! i)))"
    by (cases "tile_coords env (files ! i)") simp_all
  with idx assms(2) show ?thesis by simp
qed

lemma Landsat_init_unfold:
  assumes "getitem (if bs \<noteq> [] then bs else band_names cls) 0 = Some b0"
  shows "Landsat_init env cls r bs tr =
     (case index_files env (iglob env (os_path_join r [base_folder cls, ''**_'' @ b0 @ ''.TIF''])) [] of
        Inl e \<Rightarrow> Inl e
      | Inr idx \<Rightarrow>
          Inr \<lparr>root_dir = r, bands = (if bs \<noteq> [] then bs else band_names cls),
               transforms = tr, index = idx\<rparr>)"
  using assms by (simp add: Landsat_init_def Let_def)

lemma Landsat_init_Inl_iff:
  assumes "getitem (if bs \<noteq> [] then bs else band_names cls) 0 = Some b0"
  shows "Landsat_init env cls r bs tr = Inl e \<longleftrightarrow>
     index_files env (iglob env (os_path_join r [base_folder cls, ''**_'' @ b0 @ ''.TIF''])) [] = Inl e"
  unfolding Landsat_init_unfold [OF assms]
  by (cases "index_files env (iglob env (os_path_join r [base_folder cls, ''**_'' @ b0 @ ''.TIF''])) []")
    simp_all

lemma Landsat_init_Inr_iff:
  assumes "getitem (if bs \<noteq> [] then bs else band_names cls) 0 = Some b0"
  shows "Landsat_init env cls r bs tr = Inr self \<longleftrightarrow>
     (\<exists>idx. index_files env (iglob env (os_path_join r [base_folder cls, ''**_'' @ b0 @ ''.TIF''])) [] = Inr idx \<and>
        self = \<lparr>root_dir = r, bands = (if bs \<noteq> [] then bs else band_names cls),
               transforms = tr, index = idx\<rparr>)"
  unfolding Landsat_init_unfold [OF assms]
  by (cases "index_files env (iglob env (os_path_join r [base_folder cls, ''**_'' @ b0 @ ''.TIF''])) []")
    auto

text \<open>What a successful build leaves in the object.\<close>

lemma Landsat_init_index:
  assumes "Landsat_init env cls r bs tr = Inr self"
  shows "\<exists>b0. getitem (bands self) 0 = Some b0 \<and>
     bands self = (if bs \<noteq> [] then bs else band_names cls) \<and>
     (\<forall>f \<in> set (iglob env (os_path_join r [base_folder cls, ''**_'' @ b0 @ ''.TIF''])).
        \<not> isl (tile_coords env f)) \<and>
     index self =
       map (\<lambda>f. \<lparr>item_id = 0, bbox = projr (tile_coords env f), object = f\<rparr>)
         (iglob env (os_path_join r [base_folder cls, ''**_'' @ b0 @ ''.TIF'']))"
proof -
  from assms obtain b0 where b0: "getitem (if bs \<noteq> [] then bs else band_names cls) 0 = Some b0"
    by (cases "getitem (if bs \<noteq> [] then bs else band_names cls) 0")
      (simp_all add: Landsat_init_def Let_def)
  define files where "files = iglob env (os_path_join r [base_folder cls, ''**_'' @ b0 @ ''.TIF''])"
  from assms obtain idx where idx: "index_files env files [] = Inr idx"
    and self: "self = \<lparr>root_dir = r, bands = (if bs \<noteq> [] then bs else band_names cls),
               transforms = tr, index = idx\<rparr>"
    unfolding Landsat_init_Inr_iff [OF b0] files_def [symmetric] by (elim exE conjE)
  from idx have all: "\<forall>f \<in> set files. \<not> isl (tile_coords env f)"
    and map: "idx = [] @ map (\<lambda>f. \<lparr>item_id = 0, bbox = projr (tile_coords env f), object = f\<rparr>) files"
    unfolding index_files_Inr_iff by (rule conjunct1, rule conjunct2)
  from self b0 have 1: "getitem (bands self) 0 = Some b0" by simp
  from self have 2: "bands self = (if bs \<noteq> [] then bs else band_names cls)" by simp
  from self map have 3: "index self =
       map (\<lambda>f. \<lparr>item_id = 0, bbox = projr (tile_coords env f), object = f\<rparr>) files"
    by simp
  from 1 2 all 3 show ?thesis unfolding files_def by (intro exI conjI)
qed

lemma Landsat_init_point_in_time:
  assumes "Landsat_init env cls r bs tr = Inr self" and "it \<in> set (index self)"
  shows "mint (bbox it) = maxt (bbox it)"
proof -
  from Landsat_init_index [OF assms(1)] obtain b0 where
    valid: "\<forall>f \<in> set (iglob env (os_path_join r [base_folder cls, ''**_'' @ b0 @ ''.TIF''])).
        \<not> isl (tile_coords env f)"
    and idx: "index self =
       map (\<lambda>f. \<lparr>item_id = 0, bbox = projr (tile_coords env f), object = f\<rparr>)
         (iglob env (os_path_join r [base_folder cls, ''**_'' @ b0 @ ''.TIF'']))"
    by (elim exE conjE)
  from assms(2) idx obtain f where
    f: "f \<in> set (iglob env (os_path_join r [base_folder cls, ''**_'' @ b0 @ ''.TIF'']))"
    and it: "it = \<lparr>item_id = 0, bbox = projr (tile_coords env f), object = f\<rparr>"
    by auto
  from valid f have "\<not> isl (tile_coords env f)" by (rule bspec)
  then have "tile_coords env f = Inr (projr (tile_coords env f))"
    by (cases "tile_coords env f") simp_all
  then have "mint (projr (tile_coords env f)) = maxt (projr (tile_coords env f))"
    by (rule tile_coords_point_in_time)
  with it show ?thesis by simp
qed

lemma Landsat_init_depends_on_first_band:
  assumes "getitem (if bs \<noteq> [] then bs else band_names cls) 0 =
      getitem (if bs' \<noteq> [] then bs' else band_names cls) 0"
  shows "map_sum id index (Landsat_init env cls r bs tr) =
      map_sum id index (Landsat_init env cls r bs' tr)"
proof (cases "getitem (if bs \<noteq> [] then bs else band_names cls) 0")
  case None
  with assms have "getitem (if bs' \<noteq> [] then bs' else band_names cls) 0 = None" by simp
  with None show ?thesis by (simp add: Landsat_init_def)
next
  case (Some b0)
  with assms have other: "getitem (if bs' \<noteq> [] then bs' else band_names cls) 0 = Some b0" by simp
  show ?thesis
    unfolding Landsat_init_unfold [OF Some] Landsat_init_unfold [OF other]
    by (cases "index_files env (iglob env (os_path_join r [base_folder cls, ''**_'' @ b0 @ ''.TIF''])) []")
      simp_all
qed

lemma os_path_join_plain:
  assumes "r \<noteq> []" "last r \<noteq> CHR ''/''" "d \<noteq> []" "hd d \<noteq> CHR ''/''" "last d \<noteq> CHR ''/''"
    and "take 1 name \<noteq> ''/''"
  shows "os_path_join r [d, name] = r @ ''/'' @ d @ ''/'' @ name"
proof -
  from assms(3,4) have "take 1 d \<noteq> ''/''" by (cases d) simp_all
  with assms show ?thesis by simp
qed

section \<open>The index and the dataset-level bounds\<close>

text \<open>
  The bounds contain every stored box, so a query that meets a stored box
  meets the bounds: a query with a hit always passes the check of line 83.
\<close>

lemma intersects_commute: "intersects a b = intersects b a"
  by (auto simp: intersects_def)

lemma foldl_union_box_contains:
  "minx (foldl union_box a bs) \<le> minx a \<and> maxx a \<le> maxx (foldl union_box a bs) \<and>
   miny (foldl union_box a bs) \<le> miny a \<and> maxy a \<le> maxy (foldl union_box a bs) \<and>
   mint (foldl union_box a bs) \<le> mint a \<and> maxt a \<le> maxt (foldl union_box a bs) \<and>
   (\<forall>b \<in> set bs.
      minx (foldl union_box a bs) \<le> minx b \<and> maxx b \<le> maxx (foldl union_box a bs) \<and>
      miny (foldl union_box a bs) \<le> miny b \<and> maxy b \<le> maxy (foldl union_box a bs) \<and>
      mint (foldl union_box a bs) \<le> mint b \<and> maxt b \<le> maxt (foldl union_box a bs))"
proof (induction bs arbitrary: a)
  case Nil
  show ?case by simp
next
  case (Cons b bs)
  from Cons.IH [of "union_box a b"] show ?case
    by (auto simp: union_box_def)
qed

lemma hit_within_bounds:
  assumes "it \<in> set idx" and "intersects (bbox it) query"
  shows "\<exists>b. Index_bounds idx = Some b \<and> intersects query b"
proof (cases idx)
  case Nil
  with assms(1) show ?thesis by simp
next
  case (Cons a as)
  let ?b = "foldl union_box (bbox a) (map bbox as)"
  from assms(1) Cons have "it = a \<or> bbox it \<in> set (map bbox as)" by auto
  with foldl_union_box_contains [of "bbox a" "map bbox as"]
  have "minx ?b \<le> minx (bbox it) \<and> maxx (bbox it) \<le> maxx ?b \<and>
      miny ?b \<le> miny (bbox it) \<and> maxy (bbox it) \<le> maxy ?b \<and>
      mint ?b \<le> mint (bbox it) \<and> maxt (bbox it) \<le> maxt ?b"
    by blast
  with assms(2) have "intersects query ?b"
    by (auto simp: intersects_def)
  with Cons show ?thesis by simp
qed

lemma hits_Cons_within_bounds:
  assumes "Index_intersection idx query = hit # others"
  shows "hit \<in> set idx \<and> intersects (bbox hit) query \<and>
     (\<exists>b. Index_bounds idx = Some b \<and> intersects query b)"
proof -
  from assms have "hit \<in> set (filter (\<lambda>it. intersects (bbox it) query) idx)"
    by (simp add: Index_intersection_def)
  then have "hit \<in> set idx" "intersects (bbox hit) query" by simp_all
  with hit_within_bounds [of hit idx query] show ?thesis by blast
qed

lemma getitem_first_hit:
  assumes "Index_intersection (index self) query = hit # others"
  shows "Landsat_getitem env self query =
     (case rasterio_open env (object hit) of
        None \<Rightarrow> ([RasterOpen (object hit)], Inl (RasterioIOError (object hit)))
      | Some f \<Rightarrow>
          (case read f 1 \<lparr>col_off = minx query, row_off = miny query,
                          width = maxx query - minx query,
                          height = maxy query - miny query\<rparr> of
             None \<Rightarrow>
               ([RasterOpen (object hit),
                 RasterRead (object hit) 1
                   \<lparr>col_off = minx query, row_off = miny query,
                    width = maxx query - minx query, height = maxy query - miny query\<rparr>],
                Inl (RasterioIOError (object hit)))
           | Some arr \<Rightarrow>
               ([RasterOpen (object hit),
                 RasterRead (object hit) 1
                   \<lparr>col_off = minx query, row_off = miny query,
                    width = maxx query - minx query, height = maxy query - miny query\<rparr>],
                Inr [''image'' \<mapsto> astype_int32 arr])))"
proof -
  from hits_Cons_within_bounds [OF assms]
  obtain b where "Index_bounds (index self) = Some b" "intersects query b" by blast
  with assms show ?thesis by (simp add: Landsat_getitem_def Let_def)
qed

lemma intersection_insert:
  "Index_intersection (Index_insert idx i c obj) q =
     Index_intersection idx q @
       (if intersects c q then [\<lparr>item_id = i, bbox = c, object = obj\<rparr>] else [])"
  by (simp add: Index_intersection_def Index_insert_def)

lemma intersection_complete:
  "it \<in> set idx \<Longrightarrow> intersects (bbox it) q \<Longrightarrow> it \<in> set (Index_intersection idx q)"
  by (simp add: Index_intersection_def)

lemma intersects_self:
  "intersects b b \<longleftrightarrow> minx b \<le> maxx b \<and> miny b \<le> maxy b \<and> mint b \<le> maxt b"
  by (auto simp: intersects_def)

text \<open>The cast to \<^verbatim>\<open>int32\<close> keeps a sample's value modulo \<open>2 ^ 32\<close>, read as signed.\<close>

lemma sint_astype_int32:
  "map (map sint) (astype_int32 arr) = map (map (signed_take_bit 31)) arr"
  by (simp add: astype_int32_def sint_sbintrunc' comp_def)

lemma signed_take_bit_31_id:
  "- (2 ^ 31) \<le> v \<Longrightarrow> v < 2 ^ 31 \<Longrightarrow> signed_take_bit 31 v = (v :: int)"
  by (simp add: signed_take_bit_int_eq_self)

text \<open>The attribute \<^verbatim>\<open>transforms\<close> is written by the constructor and read by nothing.\<close>

lemma Landsat_init_transforms:
  "Landsat_init env cls r bs t2 =
     map_sum id (\<lambda>d. d\<lparr>transforms := t2\<rparr>) (Landsat_init env cls r bs t1)"
proof (cases "getitem (if bs \<noteq> [] then bs else band_names cls) 0")
  case None
  then show ?thesis by (simp add: Landsat_init_def)
next
  case (Some b0)
  show ?thesis
    unfolding Landsat_init_unfold [OF Some]
    by (cases "index_files env (iglob env (os_path_join r [base_folder cls, ''**_'' @ b0 @ ''.TIF''])) []")
      simp_all
qed

lemma index_transforms_update: "index (self\<lparr>transforms := t\<rparr>) = index self"
  by simp

lemma Landsat_getitem_transforms:
  "Landsat_getitem env (self\<lparr>transforms := t\<rparr>) query = Landsat_getitem env self query"
  unfolding Landsat_getitem_def index_transforms_update ..

section \<open>The example, evaluated\<close>

lemma tile_coords_scene_A: "tile_coords (example_platform fs) scene_A = Inr box_A"
  by (simp add: tile_coords_def scene_A_def scene_B_def basename_def getitem_def strptime_def regex_m_def regex_d_def
      digit_in_def digit_val_def days_in_month_def is_leap_def example_platform_def utc_timestamp_def
      example_reader_def box_A_def)

lemma tile_coords_scene_B: "tile_coords (example_platform fs) scene_B = Inr box_B"
  by (simp add: tile_coords_def scene_A_def scene_B_def basename_def getitem_def strptime_def regex_m_def regex_d_def
      digit_in_def digit_val_def days_in_month_def is_leap_def example_platform_def utc_timestamp_def
      example_reader_def box_B_def)

lemma tile_coords_no_date: "tile_coords (example_platform fs) no_date = Inl (IndexError ListIndexOutOfRange)"
  by (simp add: tile_coords_def no_date_def basename_def getitem_def)

lemma tile_coords_bad_date: "tile_coords (example_platform fs) bad_date = Inl ValueError"
  by (simp add: tile_coords_def bad_date_def basename_def getitem_def strptime_def regex_m_def regex_d_def
      digit_in_def digit_val_def)

lemma tile_coords_unreadable: "tile_coords (example_platform fs) unreadable = Inl (RasterioIOError unreadable)"
  by (simp add: tile_coords_def unreadable_def scene_A_def scene_B_def basename_def getitem_def strptime_def regex_m_def regex_d_def
      digit_in_def digit_val_def days_in_month_def is_leap_def example_platform_def utc_timestamp_def
      example_reader_def)

lemma iglob_example: "iglob (example_platform fs) ''data/landsat_8_9/**_B1.TIF'' = fs"
  by (simp add: example_platform_def)

lemma init_example: "Landsat_init (example_platform [scene_A, scene_B]) Landsat8 ''data'' [] None = Inr example_dataset"
  by (simp add: Landsat_init_def Landsat8_def getitem_def iglob_example tile_coords_scene_A tile_coords_scene_B example_dataset_def Index_insert_def)

lemma example_bounds:
  "Index_bounds (index example_dataset) =
     Some \<lparr>minx = 0, maxx = 150, miny = 0, maxy = 150, mint = 1577836800, maxt = 1580601600\<rparr>"
  by (simp add: example_dataset_def union_box_def box_A_def box_B_def)

lemma rasterio_open_A:
  "rasterio_open (example_platform fs) scene_A = Some (example_reader (0, 0, 100, 100) [[7, 8], [9, 10]])"
  by (simp add: example_platform_def)

lemma rasterio_open_B:
  "rasterio_open (example_platform fs) scene_B =
     Some (example_reader (50, 50, 150, 150) [[70000, - 1], [4294967295, 0]])"
  by (simp add: example_platform_def scene_A_def scene_B_def)

lemma example_hits_A:
  "Index_intersection (index example_dataset)
     \<lparr>minx = 10, maxx = 30, miny = 20, maxy = 40, mint = 1577836800, maxt = 1577836800\<rparr> =
   [\<lparr>item_id = 0, bbox = box_A, object = scene_A\<rparr>]"
  by (simp add: Index_intersection_def example_dataset_def intersects_def box_A_def box_B_def)

lemma example_query_A:
  "Landsat_getitem (example_platform fs) example_dataset
     \<lparr>minx = 10, maxx = 30, miny = 20, maxy = 40, mint = 1577836800, maxt = 1577836800\<rparr> =
   ([RasterOpen scene_A,
     RasterRead scene_A 1 \<lparr>col_off = 10, row_off = 20, width = 20, height = 20\<rparr>],
    Inr [''image'' \<mapsto> [[7, 8], [9, 10]]])"
  by (simp add: Landsat_getitem_def example_bounds example_hits_A rasterio_open_A intersects_def
      example_reader_def astype_int32_def)

lemma example_query_outside:
  "Landsat_getitem (example_platform fs) example_dataset
     \<lparr>minx = 200, maxx = 300, miny = 0, maxy = 10, mint = 1577836800, maxt = 1577836800\<rparr> =
   ([], Inl (IndexError (QueryNotWithinBounds
      \<lparr>minx = 200, maxx = 300, miny = 0, maxy = 10, mint = 1577836800, maxt = 1577836800\<rparr>
      (Some \<lparr>minx = 0, maxx = 150, miny = 0, maxy = 150, mint = 1577836800, maxt = 1580601600\<rparr>))))"
  by (simp add: Landsat_getitem_def example_bounds intersects_def)

lemma band0_Landsat8: "getitem (if [] \<noteq> [] then [] else band_names Landsat8) 0 = Some ''B1''"
  by (simp add: getitem_def Landsat8_def)

lemma example_hits_both:
  "Index_intersection (index example_dataset)
     \<lparr>minx = 60, maxx = 70, miny = 60, maxy = 70, mint = 1577836800, maxt = 1580601600\<rparr> =
   [\<lparr>item_id = 0, bbox = box_A, object = scene_A\<rparr>,
    \<lparr>item_id = 0, bbox = box_B, object = scene_B\<rparr>]"
  by (simp add: Index_intersection_def example_dataset_def intersects_def box_A_def box_B_def)

lemma example_hits_B:
  "Index_intersection (index example_dataset)
     \<lparr>minx = 120, maxx = 130, miny = 120, maxy = 130, mint = 1580601600, maxt = 1580601600\<rparr> =
   [\<lparr>item_id = 0, bbox = box_B, object = scene_B\<rparr>]"
  by (simp add: Index_intersection_def example_dataset_def intersects_def box_A_def box_B_def)

lemma example_query_B:
  "Landsat_getitem (example_platform fs) example_dataset
     \<lparr>minx = 120, maxx = 130, miny = 120, maxy = 130, mint = 1580601600, maxt = 1580601600\<rparr> =
   ([RasterOpen scene_B,
     RasterRead scene_B 1 \<lparr>col_off = 120, row_off = 120, width = 10, height = 10\<rparr>],
    Inr [''image'' \<mapsto> astype_int32 [[70000, - 1], [4294967295, 0]]])"
  by (simp add: getitem_first_hit [OF example_hits_B] rasterio_open_B example_reader_def)

section \<open>The query path\<close>

text \<open>
  C1. The window given to the raster read is made of the query's own
  coordinates, with no geotransform between: offsets \<open>minx\<close> and \<open>miny\<close>,
  extents \<open>maxx - minx\<close> and \<open>maxy - miny\<close>. Whatever the raster reader is, the
  outcome of a query with a hit is what that reader answers for band 1 and
  this window, a returned sample is that answer, and every read the query
  makes is of this window.
\<close>

theorem getitem_window_from_query:
  "(\<forall>hit others rd.
      Index_intersection (index self) query = hit # others \<and>
      rasterio_open env (object hit) = Some rd \<longrightarrow>
      snd (Landsat_getitem env self query) =
        (case read rd 1 \<lparr>col_off = minx query, row_off = miny query,
                         width = maxx query - minx query,
                         height = maxy query - miny query\<rparr> of
           None \<Rightarrow> Inl (RasterioIOError (object hit))
         | Some arr \<Rightarrow> Inr [''image'' \<mapsto> astype_int32 arr])) \<and>
   (\<forall>s. snd (Landsat_getitem env self query) = Inr s \<longrightarrow>
      (\<exists>hit others rd arr.
         Index_intersection (index self) query = hit # others \<and>
         rasterio_open env (object hit) = Some rd \<and>
         read rd 1 \<lparr>col_off = minx query, row_off = miny query,
                     width = maxx query - minx query,
                     height = maxy query - miny query\<rparr> = Some arr \<and>
         s = [''image'' \<mapsto> astype_int32 arr])) \<and>
   (\<forall>p b w. RasterRead p b w \<in> set (fst (Landsat_getitem env self query)) \<longrightarrow>
      w = \<lparr>col_off = minx query, row_off = miny query,
            width = maxx query - minx query, height = maxy query - miny query\<rparr>) \<and>
   (\<forall>s. snd (Landsat_getitem env self query) = Inr s \<longrightarrow>
      (\<exists>p. RasterRead p 1
             \<lparr>col_off = minx query, row_off = miny query,
              width = maxx query - minx query, height = maxy query - miny query\<rparr>
           \<in> set (fst (Landsat_getitem env self query))))"
proof -
  let ?w = "\<lparr>col_off = minx query, row_off = miny query,
             width = maxx query - minx query, height = maxy query - miny query\<rparr>"
  have outcome: "\<forall>hit others rd.
      Index_intersection (index self) query = hit # others \<and>
      rasterio_open env (object hit) = Some rd \<longrightarrow>
      snd (Landsat_getitem env self query) =
        (case read rd 1 ?w of
           None \<Rightarrow> Inl (RasterioIOError (object hit))
         | Some arr \<Rightarrow> Inr [''image'' \<mapsto> astype_int32 arr])"
  proof (intro allI impI)
    fix hit :: Item and others rd
    assume h: "Index_intersection (index self) query = hit # others \<and>
      rasterio_open env (object hit) = Some rd"
    then have hits: "Index_intersection (index self) query = hit # others"
      and rd: "rasterio_open env (object hit) = Some rd"
      by (rule conjunct1, rule conjunct2)
    show "snd (Landsat_getitem env self query) =
        (case read rd 1 ?w of
           None \<Rightarrow> Inl (RasterioIOError (object hit))
         | Some arr \<Rightarrow> Inr [''image'' \<mapsto> astype_int32 arr])"
      unfolding getitem_first_hit [OF hits] rd
      by (cases "read rd 1 ?w") simp_all
  qed
  have sample: "\<forall>s. snd (Landsat_getitem env self query) = Inr s \<longrightarrow>
      (\<exists>hit others rd arr.
         Index_intersection (index self) query = hit # others \<and>
         rasterio_open env (object hit) = Some rd \<and>
         read rd 1 ?w = Some arr \<and>
         s = [''image'' \<mapsto> astype_int32 arr])"
  proof (intro allI impI)
    fix s
    assume ok: "snd (Landsat_getitem env self query) = Inr s"
    then obtain hit others where hits: "Index_intersection (index self) query = hit # others"
      by (cases "Index_intersection (index self) query")
        (auto simp: Landsat_getitem_def Let_def split: if_splits)
    from ok obtain rd arr where "rasterio_open env (object hit) = Some rd"
      "read rd 1 ?w = Some arr" "s = [''image'' \<mapsto> astype_int32 arr]"
      unfolding getitem_first_hit [OF hits] by (auto split: option.splits)
    with hits show "\<exists>hit others rd arr.
         Index_intersection (index self) query = hit # others \<and>
         rasterio_open env (object hit) = Some rd \<and>
         read rd 1 ?w = Some arr \<and>
         s = [''image'' \<mapsto> astype_int32 arr]"
      by (intro exI conjI)
  qed
  have reads: "(\<forall>p b w. RasterRead p b w \<in> set (fst (Landsat_getitem env self query)) \<longrightarrow> w = ?w) \<and>
   (\<forall>s. snd (Landsat_getitem env self query) = Inr s \<longrightarrow>
      (\<exists>p. RasterRead p 1 ?w \<in> set (fst (Landsat_getitem env self query))))"
    by (auto simp: Landsat_getitem_def Let_def split: if_splits list.splits option.splits)
  from outcome sample reads show ?thesis by (intro conjI) (elim conjE, assumption)+
qed

text \<open>
  The scenario of the specification, the query (10, 30, 20, 40, T, T) on a
  tile of bounds (0, 100, 0, 100, T, T), on the raster that tells what it was
  asked: band 1 and the window (10, 20, 20, 20).
\<close>

theorem getitem_window_from_query_witness:
  "snd (Landsat_getitem echo_platform example_dataset
     \<lparr>minx = 10, maxx = 30, miny = 20, maxy = 40, mint = 1577836800, maxt = 1577836800\<rparr>) =
     Inr [''image'' \<mapsto> [[1, 10, 20, 20, 20]]] \<and>
   (\<exists>p. RasterRead p 1 \<lparr>col_off = 10, row_off = 20, width = 20, height = 20\<rparr>
      \<in> set (fst (Landsat_getitem echo_platform example_dataset
           \<lparr>minx = 10, maxx = 30, miny = 20, maxy = 40, mint = 1577836800, maxt = 1577836800\<rparr>)))"
proof -
  let ?q = "\<lparr>minx = 10, maxx = 30, miny = 20, maxy = 40, mint = 1577836800, maxt = 1577836800\<rparr>"
  let ?w = "\<lparr>col_off = minx ?q, row_off = miny ?q,
             width = maxx ?q - minx ?q, height = maxy ?q - miny ?q\<rparr>"
  let ?A = "\<lparr>item_id = 0, bbox = box_A, object = scene_A\<rparr>"
  note facts = getitem_window_from_query [of example_dataset ?q echo_platform]
  from facts have "\<forall>hit others rd.
      Index_intersection (index example_dataset) ?q = hit # others \<and>
      rasterio_open echo_platform (object hit) = Some rd \<longrightarrow>
      snd (Landsat_getitem echo_platform example_dataset ?q) =
        (case read rd 1 ?w of
           None \<Rightarrow> Inl (RasterioIOError (object hit))
         | Some arr \<Rightarrow> Inr [''image'' \<mapsto> astype_int32 arr])"
    by (elim conjE)
  then have "Index_intersection (index example_dataset) ?q = ?A # [] \<and>
      rasterio_open echo_platform (object ?A) = Some (echo_reader (0, 0, 100, 100)) \<longrightarrow>
      snd (Landsat_getitem echo_platform example_dataset ?q) =
        (case read (echo_reader (0, 0, 100, 100)) 1 ?w of
           None \<Rightarrow> Inl (RasterioIOError (object ?A))
         | Some arr \<Rightarrow> Inr [''image'' \<mapsto> astype_int32 arr])"
    by (elim allE)
  moreover have "Index_intersection (index example_dataset) ?q = ?A # [] \<and>
      rasterio_open echo_platform (object ?A) = Some (echo_reader (0, 0, 100, 100))"
    by (simp add: example_hits_A echo_platform_def)
  ultimately have "snd (Landsat_getitem echo_platform example_dataset ?q) =
        (case read (echo_reader (0, 0, 100, 100)) 1 ?w of
           None \<Rightarrow> Inl (RasterioIOError (object ?A))
         | Some arr \<Rightarrow> Inr [''image'' \<mapsto> astype_int32 arr])"
    by (rule mp)
  then have ok: "snd (Landsat_getitem echo_platform example_dataset ?q) =
      Inr [''image'' \<mapsto> [[1, 10, 20, 20, 20]]]"
    by (simp add: echo_reader_def astype_int32_def)
  from facts have "\<forall>s. snd (Landsat_getitem echo_platform example_dataset ?q) = Inr s \<longrightarrow>
      (\<exists>p. RasterRead p 1 ?w \<in> set (fst (Landsat_getitem echo_platform example_dataset ?q)))"
    by (elim conjE)
  then have "snd (Landsat_getitem echo_platform example_dataset ?q) =
        Inr [''image'' \<mapsto> [[1, 10, 20, 20, 20]]] \<longrightarrow>
      (\<exists>p. RasterRead p 1 ?w \<in> set (fst (Landsat_getitem echo_platform example_dataset ?q)))"
    by (rule spec)
  from this ok have "\<exists>p. RasterRead p 1 ?w \<in> set (fst (Landsat_getitem echo_platform example_dataset ?q))"
    by (rule mp)
  then have read: "\<exists>p. RasterRead p 1 \<lparr>col_off = 10, row_off = 20, width = 20, height = 20\<rparr>
      \<in> set (fst (Landsat_getitem echo_platform example_dataset ?q))"
    by simp
  from ok read show ?thesis by (intro conjI)
qed

text \<open>
  C2. A query raises IndexError exactly when it does not intersect the
  dataset-level bounds, and that IndexError carries the query and the
  dataset's bounds; a query that intersects the bounds never raises it.
\<close>

theorem getitem_IndexError_iff_disjoint:
  "((\<exists>m. snd (Landsat_getitem env self query) = Inl (IndexError m)) \<longleftrightarrow>
      \<not> (\<exists>b. Index_bounds (index self) = Some b \<and> intersects query b)) \<and>
   (\<forall>m. snd (Landsat_getitem env self query) = Inl (IndexError m) \<longrightarrow>
      m = QueryNotWithinBounds query (Index_bounds (index self)))"
  by (auto simp: Landsat_getitem_def Let_def split: if_splits list.splits option.splits)

theorem getitem_IndexError_iff_disjoint_witness:
  "\<not> (\<exists>b. Index_bounds (index example_dataset) = Some b \<and>
        intersects \<lparr>minx = 200, maxx = 300, miny = 0, maxy = 10, mint = 1577836800, maxt = 1577836800\<rparr> b) \<and>
   snd (Landsat_getitem (example_platform []) example_dataset
     \<lparr>minx = 200, maxx = 300, miny = 0, maxy = 10, mint = 1577836800, maxt = 1577836800\<rparr>) =
     Inl (IndexError (QueryNotWithinBounds
       \<lparr>minx = 200, maxx = 300, miny = 0, maxy = 10, mint = 1577836800, maxt = 1577836800\<rparr>
       (Some \<lparr>minx = 0, maxx = 150, miny = 0, maxy = 150, mint = 1577836800, maxt = 1580601600\<rparr>))) \<and>
   (\<exists>b. Index_bounds (index example_dataset) = Some b \<and>
        intersects \<lparr>minx = 10, maxx = 30, miny = 20, maxy = 40, mint = 1577836800, maxt = 1577836800\<rparr> b) \<and>
   \<not> (\<exists>m. snd (Landsat_getitem (example_platform []) example_dataset
     \<lparr>minx = 10, maxx = 30, miny = 20, maxy = 40, mint = 1577836800, maxt = 1577836800\<rparr>) =
     Inl (IndexError m))"
proof -
  let ?out = "\<lparr>minx = 200, maxx = 300, miny = 0, maxy = 10, mint = 1577836800, maxt = 1577836800\<rparr>"
  let ?inside = "\<lparr>minx = 10, maxx = 30, miny = 20, maxy = 40, mint = 1577836800, maxt = 1577836800\<rparr>"
  have raised: "snd (Landsat_getitem (example_platform []) example_dataset ?out) =
     Inl (IndexError (QueryNotWithinBounds ?out
       (Some \<lparr>minx = 0, maxx = 150, miny = 0, maxy = 150, mint = 1577836800, maxt = 1580601600\<rparr>)))"
    by (simp add: example_query_outside)
  then have disjoint: "\<not> (\<exists>b. Index_bounds (index example_dataset) = Some b \<and> intersects ?out b)"
    using getitem_IndexError_iff_disjoint [of "example_platform []" example_dataset ?out] by blast
  have inside: "\<exists>b. Index_bounds (index example_dataset) = Some b \<and> intersects ?inside b"
    by (simp add: example_bounds intersects_def)
  then have "\<not> (\<exists>m. snd (Landsat_getitem (example_platform []) example_dataset ?inside) =
     Inl (IndexError m))"
    using getitem_IndexError_iff_disjoint [of "example_platform []" example_dataset ?inside] by blast
  with raised disjoint inside show ?thesis by blast
qed

text \<open>
  C5. When the query has hits, only the first is used: the raster calls are
  an open of the first hit's file and at most one read of it, a returned
  sample is the array read from that file, and the outcome is the one of a
  dataset whose index holds the first hit alone. No other tile contributes.
\<close>

theorem getitem_reads_first_hit_only:
  assumes "Index_intersection (index self) query = hit # others"
  shows
    "(fst (Landsat_getitem env self query) = [RasterOpen (object hit)] \<or>
      fst (Landsat_getitem env self query) =
        [RasterOpen (object hit),
         RasterRead (object hit) 1
           \<lparr>col_off = minx query, row_off = miny query,
            width = maxx query - minx query, height = maxy query - miny query\<rparr>]) \<and>
     (\<forall>s. snd (Landsat_getitem env self query) = Inr s \<longrightarrow>
        (\<exists>rd arr. rasterio_open env (object hit) = Some rd \<and>
           read rd 1 \<lparr>col_off = minx query, row_off = miny query,
                       width = maxx query - minx query,
                       height = maxy query - miny query\<rparr> = Some arr \<and>
           s = [''image'' \<mapsto> astype_int32 arr])) \<and>
     Landsat_getitem env self query = Landsat_getitem env (self\<lparr>index := [hit]\<rparr>) query"
proof -
  note first = getitem_first_hit [OF assms, of env]
  from hits_Cons_within_bounds [OF assms] have "intersects (bbox hit) query" by blast
  then have "Index_intersection (index (self\<lparr>index := [hit]\<rparr>)) query = hit # []"
    by (simp add: Index_intersection_def)
  note alone = getitem_first_hit [OF this, of env]
  have same: "Landsat_getitem env self query = Landsat_getitem env (self\<lparr>index := [hit]\<rparr>) query"
    unfolding first alone ..
  have trace: "fst (Landsat_getitem env self query) = [RasterOpen (object hit)] \<or>
      fst (Landsat_getitem env self query) =
        [RasterOpen (object hit),
         RasterRead (object hit) 1
           \<lparr>col_off = minx query, row_off = miny query,
            width = maxx query - minx query, height = maxy query - miny query\<rparr>]"
    unfolding first by (simp split: option.splits)
  have result: "\<forall>s. snd (Landsat_getitem env self query) = Inr s \<longrightarrow>
        (\<exists>rd arr. rasterio_open env (object hit) = Some rd \<and>
           read rd 1 \<lparr>col_off = minx query, row_off = miny query,
                       width = maxx query - minx query,
                       height = maxy query - miny query\<rparr> = Some arr \<and>
           s = [''image'' \<mapsto> astype_int32 arr])"
    unfolding first by (auto split: option.splits)
  from trace result same show ?thesis by (intro conjI)
qed

theorem getitem_reads_first_hit_only_witness:
  "Index_intersection (index example_dataset)
     \<lparr>minx = 60, maxx = 70, miny = 60, maxy = 70, mint = 1577836800, maxt = 1580601600\<rparr> =
     [\<lparr>item_id = 0, bbox = box_A, object = scene_A\<rparr>,
      \<lparr>item_id = 0, bbox = box_B, object = scene_B\<rparr>] \<and>
   Landsat_getitem (example_platform []) example_dataset
     \<lparr>minx = 60, maxx = 70, miny = 60, maxy = 70, mint = 1577836800, maxt = 1580601600\<rparr> =
   Landsat_getitem (example_platform [])
     (example_dataset\<lparr>index := [\<lparr>item_id = 0, bbox = box_A, object = scene_A\<rparr>]\<rparr>)
     \<lparr>minx = 60, maxx = 70, miny = 60, maxy = 70, mint = 1577836800, maxt = 1580601600\<rparr> \<and>
   Landsat_getitem (example_platform []) example_dataset
     \<lparr>minx = 60, maxx = 70, miny = 60, maxy = 70, mint = 1577836800, maxt = 1580601600\<rparr> =
   ([RasterOpen scene_A,
     RasterRead scene_A 1 \<lparr>col_off = 60, row_off = 60, width = 10, height = 10\<rparr>],
    Inr [''image'' \<mapsto> [[7, 8], [9, 10]]])"
proof -
  let ?q = "\<lparr>minx = 60, maxx = 70, miny = 60, maxy = 70, mint = 1577836800, maxt = 1580601600\<rparr>"
  have same: "Landsat_getitem (example_platform []) example_dataset ?q =
      Landsat_getitem (example_platform [])
        (example_dataset\<lparr>index := [\<lparr>item_id = 0, bbox = box_A, object = scene_A\<rparr>]\<rparr>) ?q"
    using getitem_reads_first_hit_only [OF example_hits_both, of "example_platform []"] by blast
  have "Landsat_getitem (example_platform []) example_dataset ?q =
     ([RasterOpen scene_A,
       RasterRead scene_A 1 \<lparr>col_off = 60, row_off = 60, width = 10, height = 10\<rparr>],
      Inr [''image'' \<mapsto> [[7, 8], [9, 10]]])"
    by (simp add: getitem_first_hit [OF example_hits_both] rasterio_open_A example_reader_def
        astype_int32_def)
  with same example_hits_both show ?thesis by blast
qed

text \<open>
  C6. A returned sample has the single key \<^verbatim>\<open>image\<close>; its value is the array
  read from band 1 of the first hit's file at the query's window, cast to
  32-bit integers: read as signed, each pixel is the sample's value taken
  modulo \<open>2 ^ 32\<close> into the signed range, and the value itself when it fits.
\<close>

theorem getitem_sample_is_band_1_as_int32:
  assumes "snd (Landsat_getitem env self query) = Inr s"
  shows
    "\<exists>hit others rd arr.
       Index_intersection (index self) query = hit # others \<and>
       rasterio_open env (object hit) = Some rd \<and>
       read rd 1 \<lparr>col_off = minx query, row_off = miny query,
                   width = maxx query - minx query,
                   height = maxy query - miny query\<rparr> = Some arr \<and>
       s ''image'' = Some (astype_int32 arr) \<and> dom s = {''image''} \<and>
       map (map sint) (astype_int32 arr) = map (map (signed_take_bit 31)) arr \<and>
       ((\<forall>row \<in> set arr. \<forall>v \<in> set row. - (2 ^ 31) \<le> v \<and> v < 2 ^ 31) \<longrightarrow>
          map (map sint) (astype_int32 arr) = arr)"
proof -
  from assms obtain hit others where hits: "Index_intersection (index self) query = hit # others"
    by (cases "Index_intersection (index self) query")
      (auto simp: Landsat_getitem_def Let_def split: if_splits)
  from assms obtain rd arr where rd: "rasterio_open env (object hit) = Some rd"
    and arr: "read rd 1 \<lparr>col_off = minx query, row_off = miny query,
                   width = maxx query - minx query,
                   height = maxy query - miny query\<rparr> = Some arr"
    and s: "s = [''image'' \<mapsto> astype_int32 arr]"
    unfolding getitem_first_hit [OF hits] by (auto split: option.splits)
  have small: "(\<forall>row \<in> set arr. \<forall>v \<in> set row. - (2 ^ 31) \<le> v \<and> v < 2 ^ 31) \<longrightarrow>
          map (map sint) (astype_int32 arr) = arr"
  proof
    assume range: "\<forall>row \<in> set arr. \<forall>v \<in> set row. - (2 ^ 31) \<le> v \<and> v < 2 ^ 31"
    have "map (map (signed_take_bit 31)) arr = map (map id) arr"
    proof (intro map_cong refl)
      fix row v
      assume "row \<in> set arr" "v \<in> set row"
      with range have "- (2 ^ 31) \<le> v" "v < 2 ^ 31" by auto
      then show "signed_take_bit 31 v = id v" by (simp add: signed_take_bit_31_id)
    qed
    then show "map (map sint) (astype_int32 arr) = arr"
      by (simp add: sint_astype_int32)
  qed
  from s have "s ''image'' = Some (astype_int32 arr)" "dom s = {''image''}" by simp_all
  with hits rd arr small sint_astype_int32 [of arr] show ?thesis by blast
qed

theorem getitem_sample_is_band_1_as_int32_witness:
  "snd (Landsat_getitem (example_platform []) example_dataset
     \<lparr>minx = 120, maxx = 130, miny = 120, maxy = 130, mint = 1580601600, maxt = 1580601600\<rparr>) =
     Inr [''image'' \<mapsto> astype_int32 [[70000, - 1], [4294967295, 0]]] \<and>
   (\<exists>hit others rd arr.
       Index_intersection (index example_dataset)
         \<lparr>minx = 120, maxx = 130, miny = 120, maxy = 130, mint = 1580601600, maxt = 1580601600\<rparr> =
         hit # others \<and>
       rasterio_open (example_platform []) (object hit) = Some rd \<and>
       read rd 1 \<lparr>col_off = 120, row_off = 120, width = 10, height = 10\<rparr> = Some arr \<and>
       map (map sint) (astype_int32 arr) = map (map (signed_take_bit 31)) arr) \<and>
   map (map sint) (astype_int32 [[70000, - 1], [4294967295, 0]]) = [[70000, - 1], [- 1, 0]]"
proof -
  let ?q = "\<lparr>minx = 120, maxx = 130, miny = 120, maxy = 130, mint = 1580601600, maxt = 1580601600\<rparr>"
  let ?w = "\<lparr>col_off = minx ?q, row_off = miny ?q,
             width = maxx ?q - minx ?q, height = maxy ?q - miny ?q\<rparr>"
  have ok: "snd (Landsat_getitem (example_platform []) example_dataset ?q) =
     Inr [''image'' \<mapsto> astype_int32 [[70000, - 1], [4294967295, 0]]]"
    by (simp add: example_query_B)
  from getitem_sample_is_band_1_as_int32 [OF ok]
  obtain hit others rd arr where
    hits: "Index_intersection (index example_dataset) ?q = hit # others"
    and rd: "rasterio_open (example_platform []) (object hit) = Some rd"
    and arr: "read rd 1 ?w = Some arr"
    and cast: "map (map sint) (astype_int32 arr) = map (map (signed_take_bit 31)) arr"
    by (elim exE conjE)
  have "?w = \<lparr>col_off = 120, row_off = 120, width = 10, height = 10\<rparr>" by simp
  with arr have arr': "read rd 1 \<lparr>col_off = 120, row_off = 120, width = 10, height = 10\<rparr> = Some arr"
    by (simp only:)
  from hits rd arr' cast have found: "\<exists>hit others rd arr.
       Index_intersection (index example_dataset) ?q = hit # others \<and>
       rasterio_open (example_platform []) (object hit) = Some rd \<and>
       read rd 1 \<lparr>col_off = 120, row_off = 120, width = 10, height = 10\<rparr> = Some arr \<and>
       map (map sint) (astype_int32 arr) = map (map (signed_take_bit 31)) arr"
    by (intro exI conjI)
  have signed: "map (map sint) (astype_int32 [[70000, - 1], [4294967295, 0]]) = [[70000, - 1], [- 1, 0]]"
    by (simp add: astype_int32_def)
  from ok found signed show ?thesis by (intro conjI)
qed

text \<open>
  C8. A query that intersects the dataset-level bounds and no stored tile
  (it falls in a gap that the union of the boxes covers) makes no raster call
  and raises StopIteration, from taking the first of no hits: neither a sample
  nor the IndexError of the bounds check.
\<close>

theorem getitem_gap_raises_StopIteration:
  assumes "Index_bounds (index self) = Some b" and "intersects query b"
    and "\<forall>it \<in> set (index self). \<not> intersects (bbox it) query"
  shows "Landsat_getitem env self query = ([], Inl StopIteration)"
proof -
  from assms(3) have "Index_intersection (index self) query = []"
    by (simp add: Index_intersection_def filter_empty_conv)
  with assms(1,2) show ?thesis
    by (simp add: Landsat_getitem_def Let_def)
qed

theorem getitem_gap_raises_StopIteration_witness:
  "Index_bounds (index example_dataset) =
     Some \<lparr>minx = 0, maxx = 150, miny = 0, maxy = 150, mint = 1577836800, maxt = 1580601600\<rparr> \<and>
   intersects \<lparr>minx = 120, maxx = 130, miny = 10, maxy = 20, mint = 1577836800, maxt = 1580601600\<rparr>
     \<lparr>minx = 0, maxx = 150, miny = 0, maxy = 150, mint = 1577836800, maxt = 1580601600\<rparr> \<and>
   list_all (\<lambda>it. \<not> intersects (bbox it)
       \<lparr>minx = 120, maxx = 130, miny = 10, maxy = 20, mint = 1577836800, maxt = 1580601600\<rparr>)
     (index example_dataset) \<and>
   Landsat_getitem (example_platform []) example_dataset
     \<lparr>minx = 120, maxx = 130, miny = 10, maxy = 20, mint = 1577836800, maxt = 1580601600\<rparr> =
     ([], Inl StopIteration)"
proof -
  let ?q = "\<lparr>minx = 120, maxx = 130, miny = 10, maxy = 20, mint = 1577836800, maxt = 1580601600\<rparr>"
  let ?b = "\<lparr>minx = 0, maxx = 150, miny = 0, maxy = 150, mint = 1577836800, maxt = 1580601600\<rparr>"
  have inside: "intersects ?q ?b" by (simp add: intersects_def)
  have gap: "list_all (\<lambda>it. \<not> intersects (bbox it) ?q) (index example_dataset)"
    by (simp add: example_dataset_def intersects_def box_A_def box_B_def)
  then have "\<forall>it \<in> set (index example_dataset). \<not> intersects (bbox it) ?q"
    by (simp only: list_all_iff)
  from getitem_gap_raises_StopIteration [OF example_bounds inside this, of "example_platform []"]
    example_bounds inside gap
  show ?thesis by blast
qed

text \<open>
  C9. The \<^verbatim>\<open>transforms\<close> argument is stored and never applied: a query's
  outcome does not depend on the attribute, and two datasets built from the
  same arguments but for \<^verbatim>\<open>transforms\<close> differ in that attribute alone and
  answer every query alike.
\<close>

theorem transforms_stored_never_applied:
  "Landsat_getitem env (self\<lparr>transforms := t\<rparr>) query = Landsat_getitem env self query \<and>
   (\<forall>d1 d2. Landsat_init env cls r bs t1 = Inr d1 \<and> Landsat_init env cls r bs t2 = Inr d2 \<longrightarrow>
      transforms d1 = t1 \<and> transforms d2 = t2 \<and> d2 = d1\<lparr>transforms := t2\<rparr> \<and>
      Landsat_getitem env d1 query = Landsat_getitem env d2 query)"
proof (intro conjI allI impI)
  show "Landsat_getitem env (self\<lparr>transforms := t\<rparr>) query = Landsat_getitem env self query"
    by (rule Landsat_getitem_transforms)
next
  fix d1 d2
  assume h: "Landsat_init env cls r bs t1 = Inr d1 \<and> Landsat_init env cls r bs t2 = Inr d2"
  then have e1: "Landsat_init env cls r bs t1 = Inr d1"
    and e2: "Landsat_init env cls r bs t2 = Inr d2"
    by (rule conjunct1, rule conjunct2)
  have "Inr d2 = map_sum id (\<lambda>d. d\<lparr>transforms := t2\<rparr>) (Inr d1 :: error + Landsat)"
    unfolding e1 [symmetric] e2 [symmetric] by (rule Landsat_init_transforms)
  then have d2: "d2 = d1\<lparr>transforms := t2\<rparr>" by simp
  have "Inr d1 = map_sum id (\<lambda>d. d\<lparr>transforms := t1\<rparr>) (Inr d1 :: error + Landsat)"
    unfolding e1 [symmetric] by (rule Landsat_init_transforms)
  then have "d1 = d1\<lparr>transforms := t1\<rparr>" by simp
  then have "transforms d1 = transforms (d1\<lparr>transforms := t1\<rparr>)" by (rule arg_cong)
  then show "transforms d1 = t1" by simp
  from d2 show "transforms d2 = t2" by simp
  from d2 show "d2 = d1\<lparr>transforms := t2\<rparr>" .
  from d2 show "Landsat_getitem env d1 query = Landsat_getitem env d2 query"
    by (simp add: Landsat_getitem_transforms)
qed

text \<open>A transform that would erase the sample changes nothing.\<close>

theorem transforms_stored_never_applied_witness:
  "Landsat_init (example_platform [scene_A, scene_B]) Landsat8 ''data'' [] None = Inr example_dataset \<and>
   Landsat_init (example_platform [scene_A, scene_B]) Landsat8 ''data'' [] (Some (\<lambda>s. Map.empty)) =
     Inr (example_dataset\<lparr>transforms := Some (\<lambda>s. Map.empty)\<rparr>) \<and>
   Landsat_getitem (example_platform []) (example_dataset\<lparr>transforms := Some (\<lambda>s. Map.empty)\<rparr>)
     \<lparr>minx = 10, maxx = 30, miny = 20, maxy = 40, mint = 1577836800, maxt = 1577836800\<rparr> =
   ([RasterOpen scene_A,
     RasterRead scene_A 1 \<lparr>col_off = 10, row_off = 20, width = 20, height = 20\<rparr>],
    Inr [''image'' \<mapsto> [[7, 8], [9, 10]]])"
proof -
  let ?q = "\<lparr>minx = 10, maxx = 30, miny = 20, maxy = 40, mint = 1577836800, maxt = 1577836800\<rparr>"
  let ?erase = "Some (\<lambda>s :: sample. (Map.empty :: sample))"
  have "Landsat_init (example_platform [scene_A, scene_B]) Landsat8 ''data'' [] ?erase =
      map_sum id (\<lambda>d. d\<lparr>transforms := ?erase\<rparr>) (Inr example_dataset)"
    unfolding init_example [symmetric] by (rule Landsat_init_transforms)
  then have two: "Landsat_init (example_platform [scene_A, scene_B]) Landsat8 ''data'' [] ?erase =
     Inr (example_dataset\<lparr>transforms := ?erase\<rparr>)"
    by simp
  have "Landsat_getitem (example_platform []) (example_dataset\<lparr>transforms := ?erase\<rparr>) ?q =
    Landsat_getitem (example_platform []) example_dataset ?q"
    by (rule conjunct1 [OF transforms_stored_never_applied])
  then have three: "Landsat_getitem (example_platform []) (example_dataset\<lparr>transforms := ?erase\<rparr>) ?q =
   ([RasterOpen scene_A,
     RasterRead scene_A 1 \<lparr>col_off = 10, row_off = 20, width = 20, height = 20\<rparr>],
    Inr [''image'' \<mapsto> [[7, 8], [9, 10]]])"
    by (simp only: example_query_A)
  from init_example two three show ?thesis by (intro conjI)
qed

section \<open>The index behind the dataset\<close>

text \<open>
  C7. In the index of a dataset that was built, every record whose box
  overlaps a query on all three closed axis intervals is among the hits of
  that query; a record whose spatial intervals are not empty (its time
  interval is a point) is among the hits of its own box; when two boxes fail
  to overlap, neither record is a hit of the other's box; and nothing is
  deduplicated: an insertion adds one hit to every query its box meets, and a
  query has as many hits as there are matched files whose box it meets.
\<close>

theorem index_finds_every_overlap_without_dedup:
  assumes "Landsat_init env cls r bs tr = Inr self"
  shows
    "(\<forall>it \<in> set (index self). \<forall>q. intersects (bbox it) q \<longrightarrow>
        it \<in> set (Index_intersection (index self) q)) \<and>
     (\<forall>it \<in> set (index self).
        minx (bbox it) \<le> maxx (bbox it) \<and> miny (bbox it) \<le> maxy (bbox it) \<longrightarrow>
        it \<in> set (Index_intersection (index self) (bbox it))) \<and>
     (\<forall>a b. \<not> intersects (bbox a) (bbox b) \<longrightarrow>
        b \<notin> set (Index_intersection (index self) (bbox a)) \<and>
        a \<notin> set (Index_intersection (index self) (bbox b))) \<and>
     (\<forall>q i c obj.
        Index_intersection (Index_insert (index self) i c obj) q =
          Index_intersection (index self) q @
            (if intersects c q then [\<lparr>item_id = i, bbox = c, object = obj\<rparr>] else [])) \<and>
     (\<exists>b0. getitem (bands self) 0 = Some b0 \<and>
        (\<forall>q. length (Index_intersection (index self) q) =
           length (filter (\<lambda>f. case tile_coords env f of Inl e \<Rightarrow> False | Inr c \<Rightarrow> intersects c q)
             (iglob env (os_path_join r [base_folder cls, ''**_'' @ b0 @ ''.TIF''])))))"
proof -
  have complete: "\<forall>it \<in> set (index self). \<forall>q. intersects (bbox it) q \<longrightarrow>
        it \<in> set (Index_intersection (index self) q)"
    by (intro ballI allI impI) (rule intersection_complete)
  have reflexive: "\<forall>it \<in> set (index self).
        minx (bbox it) \<le> maxx (bbox it) \<and> miny (bbox it) \<le> maxy (bbox it) \<longrightarrow>
        it \<in> set (Index_intersection (index self) (bbox it))"
  proof (intro ballI impI)
    fix it
    assume it: "it \<in> set (index self)"
      and space: "minx (bbox it) \<le> maxx (bbox it) \<and> miny (bbox it) \<le> maxy (bbox it)"
    from Landsat_init_point_in_time [OF assms it] have "mint (bbox it) \<le> maxt (bbox it)" by simp
    with space have "intersects (bbox it) (bbox it)" by (simp add: intersects_self)
    with it show "it \<in> set (Index_intersection (index self) (bbox it))"
      by (rule intersection_complete)
  qed
  have exact: "\<forall>a b. \<not> intersects (bbox a) (bbox b) \<longrightarrow>
        b \<notin> set (Index_intersection (index self) (bbox a)) \<and>
        a \<notin> set (Index_intersection (index self) (bbox b))"
  proof (intro allI impI conjI)
    fix a b :: Item
    assume no: "\<not> intersects (bbox a) (bbox b)"
    show "b \<notin> set (Index_intersection (index self) (bbox a))"
    proof
      assume "b \<in> set (Index_intersection (index self) (bbox a))"
      then have "intersects (bbox b) (bbox a)" by (simp add: Index_intersection_def)
      with no show False by (simp add: intersects_commute)
    qed
    show "a \<notin> set (Index_intersection (index self) (bbox b))"
    proof
      assume "a \<in> set (Index_intersection (index self) (bbox b))"
      then have "intersects (bbox a) (bbox b)" by (simp add: Index_intersection_def)
      with no show False by simp
    qed
  qed
  have grows: "\<forall>q i c obj.
        Index_intersection (Index_insert (index self) i c obj) q =
          Index_intersection (index self) q @
            (if intersects c q then [\<lparr>item_id = i, bbox = c, object = obj\<rparr>] else [])"
    by (intro allI) (rule intersection_insert)
  from Landsat_init_index [OF assms] obtain b0 where
    b0: "getitem (bands self) 0 = Some b0"
    and valid: "\<forall>f \<in> set (iglob env (os_path_join r [base_folder cls, ''**_'' @ b0 @ ''.TIF''])).
        \<not> isl (tile_coords env f)"
    and idx: "index self =
       map (\<lambda>f. \<lparr>item_id = 0, bbox = projr (tile_coords env f), object = f\<rparr>)
         (iglob env (os_path_join r [base_folder cls, ''**_'' @ b0 @ ''.TIF'']))"
    by (elim exE conjE)
  define files where "files = iglob env (os_path_join r [base_folder cls, ''**_'' @ b0 @ ''.TIF''])"
  have count: "\<forall>q. length (Index_intersection (index self) q) =
           length (filter (\<lambda>f. case tile_coords env f of Inl e \<Rightarrow> False | Inr c \<Rightarrow> intersects c q) files)"
  proof
    fix q
    have "filter (\<lambda>f. intersects (projr (tile_coords env f)) q) files =
        filter (\<lambda>f. case tile_coords env f of Inl e \<Rightarrow> False | Inr c \<Rightarrow> intersects c q) files"
    proof (rule filter_cong [OF refl])
      fix f
      assume "f \<in> set files"
      with valid have "\<not> isl (tile_coords env f)" unfolding files_def by (rule bspec)
      then show "intersects (projr (tile_coords env f)) q =
          (case tile_coords env f of Inl e \<Rightarrow> False | Inr c \<Rightarrow> intersects c q)"
        by (cases "tile_coords env f") simp_all
    qed
    then show "length (Index_intersection (index self) q) =
           length (filter (\<lambda>f. case tile_coords env f of Inl e \<Rightarrow> False | Inr c \<Rightarrow> intersects c q) files)"
      unfolding idx files_def [symmetric]
      by (simp add: Index_intersection_def filter_map comp_def)
  qed
  from b0 count have "\<exists>b0. getitem (bands self) 0 = Some b0 \<and>
        (\<forall>q. length (Index_intersection (index self) q) =
           length (filter (\<lambda>f. case tile_coords env f of Inl e \<Rightarrow> False | Inr c \<Rightarrow> intersects c q)
             (iglob env (os_path_join r [base_folder cls, ''**_'' @ b0 @ ''.TIF'']))))"
    unfolding files_def by (intro exI conjI)
  with complete reflexive exact grows show ?thesis by (intro conjI)
qed

theorem index_finds_every_overlap_without_dedup_witness:
  "\<lparr>item_id = 0, bbox = box_A, object = scene_A\<rparr>
     \<in> set (Index_intersection (index example_dataset) box_A) \<and>
   \<lparr>item_id = 0, bbox = box_B, object = scene_B\<rparr>
     \<notin> set (Index_intersection (index example_dataset) box_A) \<and>
   Index_intersection (index example_dataset)
     \<lparr>minx = 60, maxx = 70, miny = 60, maxy = 70, mint = 1577836800, maxt = 1580601600\<rparr> =
     [\<lparr>item_id = 0, bbox = box_A, object = scene_A\<rparr>,
      \<lparr>item_id = 0, bbox = box_B, object = scene_B\<rparr>]"
proof -
  let ?A = "\<lparr>item_id = 0, bbox = box_A, object = scene_A\<rparr>"
  let ?B = "\<lparr>item_id = 0, bbox = box_B, object = scene_B\<rparr>"
  note facts = index_finds_every_overlap_without_dedup [OF init_example]
  from facts have reflexive: "\<forall>it \<in> set (index example_dataset).
        minx (bbox it) \<le> maxx (bbox it) \<and> miny (bbox it) \<le> maxy (bbox it) \<longrightarrow>
        it \<in> set (Index_intersection (index example_dataset) (bbox it))"
    by (elim conjE)
  from facts have exact: "\<forall>a b. \<not> intersects (bbox a) (bbox b) \<longrightarrow>
        b \<notin> set (Index_intersection (index example_dataset) (bbox a)) \<and>
        a \<notin> set (Index_intersection (index example_dataset) (bbox b))"
    by (elim conjE)
  have stored: "?A \<in> set (index example_dataset)" by (simp add: example_dataset_def)
  have wide: "minx (bbox ?A) \<le> maxx (bbox ?A) \<and> miny (bbox ?A) \<le> maxy (bbox ?A)"
    by (simp add: box_A_def)
  from reflexive stored have "minx (bbox ?A) \<le> maxx (bbox ?A) \<and> miny (bbox ?A) \<le> maxy (bbox ?A) \<longrightarrow>
        ?A \<in> set (Index_intersection (index example_dataset) (bbox ?A))"
    by (rule bspec)
  with wide have "?A \<in> set (Index_intersection (index example_dataset) (bbox ?A))"
    by (rule rev_mp)
  then have one: "?A \<in> set (Index_intersection (index example_dataset) box_A)" by simp
  have apart: "\<not> intersects (bbox ?A) (bbox ?B)"
    by (simp add: intersects_def box_A_def box_B_def)
  from exact have "\<not> intersects (bbox ?A) (bbox ?B) \<longrightarrow>
        ?B \<notin> set (Index_intersection (index example_dataset) (bbox ?A)) \<and>
        ?A \<notin> set (Index_intersection (index example_dataset) (bbox ?B))"
    by (elim allE)
  with apart have "?B \<notin> set (Index_intersection (index example_dataset) (bbox ?A))"
    by (elim impE conjE)
  then have two: "?B \<notin> set (Index_intersection (index example_dataset) box_A)" by simp
  from one two example_hits_both show ?thesis by (intro conjI)
qed

section \<open>The catalogue build\<close>

text \<open>
  C3, as the code has it. Nothing in the constructor catches an exception, so
  a bad file is not skipped: when the loop reaches a matched file that has no
  token of index 3 (IndexError), whose token \<^verbatim>\<open>strptime\<close> refuses (ValueError),
  whose date the platform gives no timestamp (the platform's exception) or
  that cannot be opened (rasterio's I/O error), the constructor raises that
  exception; a build with such a file among the matched ones does not return,
  and no warning is collected. A build that returns has found every matched
  file valid and holds one record per matched file.
\<close>

theorem init_raises_at_first_invalid_file:
  assumes "getitem (if bs \<noteq> [] then bs else band_names cls) 0 = Some b0"
  shows
    "(\<forall>pre f post e.
        iglob env (os_path_join r [base_folder cls, ''**_'' @ b0 @ ''.TIF'']) = pre @ f # post \<and>
        (\<forall>g \<in> set pre. \<not> isl (tile_coords env g)) \<and> tile_coords env f = Inl e \<longrightarrow>
        Landsat_init env cls r bs tr = Inl e) \<and>
     ((\<exists>f \<in> set (iglob env (os_path_join r [base_folder cls, ''**_'' @ b0 @ ''.TIF''])).
         isl (tile_coords env f)) \<longrightarrow>
        isl (Landsat_init env cls r bs tr)) \<and>
     (\<forall>self. Landsat_init env cls r bs tr = Inr self \<longrightarrow>
        (\<forall>f \<in> set (iglob env (os_path_join r [base_folder cls, ''**_'' @ b0 @ ''.TIF''])).
           \<not> isl (tile_coords env f)) \<and>
        length (index self) =
          length (iglob env (os_path_join r [base_folder cls, ''**_'' @ b0 @ ''.TIF'']))) \<and>
     (\<forall>f e. tile_coords env f = Inl e \<longleftrightarrow>
        (getitem (split CHR ''_'' (basename f)) 3 = None \<and> e = IndexError ListIndexOutOfRange) \<or>
        (\<exists>tok. getitem (split CHR ''_'' (basename f)) 3 = Some tok \<and>
           ((isl (strptime tok) \<and> e = ValueError) \<or>
            (\<exists>t. strptime tok = Inr t \<and>
               (timestamp env t = Inl e \<or>
                (\<exists>ts. timestamp env t = Inr ts \<and> rasterio_open env f = None \<and>
                   e = RasterioIOError f))))))"
proof -
  define files where "files = iglob env (os_path_join r [base_folder cls, ''**_'' @ b0 @ ''.TIF''])"
  have raised: "\<forall>pre f post e.
        files = pre @ f # post \<and>
        (\<forall>g \<in> set pre. \<not> isl (tile_coords env g)) \<and> tile_coords env f = Inl e \<longrightarrow>
        Landsat_init env cls r bs tr = Inl e"
  proof (intro allI impI)
    fix pre f post e
    assume "files = pre @ f # post \<and>
        (\<forall>g \<in> set pre. \<not> isl (tile_coords env g)) \<and> tile_coords env f = Inl e"
    then have "\<exists>pre f post. files = pre @ f # post \<and>
        (\<forall>g \<in> set pre. \<not> isl (tile_coords env g)) \<and> tile_coords env f = Inl e"
      by (intro exI)
    then have "index_files env files [] = Inl e"
      by (rule iffD2 [OF index_files_Inl_iff])
    then show "Landsat_init env cls r bs tr = Inl e"
      unfolding Landsat_init_Inl_iff [OF assms] files_def .
  qed
  have built: "\<forall>self. Landsat_init env cls r bs tr = Inr self \<longrightarrow>
        (\<forall>f \<in> set files. \<not> isl (tile_coords env f)) \<and> length (index self) = length files"
  proof (intro allI impI)
    fix self
    assume "Landsat_init env cls r bs tr = Inr self"
    then obtain idx where idx: "index_files env files [] = Inr idx" and self: "index self = idx"
      unfolding Landsat_init_Inr_iff [OF assms] files_def [symmetric] by auto
    from idx have "(\<forall>f \<in> set files. \<not> isl (tile_coords env f)) \<and>
        idx = [] @ map (\<lambda>f. \<lparr>item_id = 0, bbox = projr (tile_coords env f), object = f\<rparr>) files"
      by (rule iffD1 [OF index_files_Inr_iff])
    with self show "(\<forall>f \<in> set files. \<not> isl (tile_coords env f)) \<and> length (index self) = length files"
      by simp
  qed
  have aborts: "(\<exists>f \<in> set files. isl (tile_coords env f)) \<longrightarrow> isl (Landsat_init env cls r bs tr)"
  proof
    assume bad: "\<exists>f \<in> set files. isl (tile_coords env f)"
    show "isl (Landsat_init env cls r bs tr)"
    proof (cases "Landsat_init env cls r bs tr")
      case (Inl e)
      then show ?thesis by simp
    next
      case (Inr self)
      with built have "\<forall>f \<in> set files. \<not> isl (tile_coords env f)" by simp
      with bad show ?thesis by simp
    qed
  qed
  have kinds: "\<forall>f e. tile_coords env f = Inl e \<longleftrightarrow>
        (getitem (split CHR ''_'' (basename f)) 3 = None \<and> e = IndexError ListIndexOutOfRange) \<or>
        (\<exists>tok. getitem (split CHR ''_'' (basename f)) 3 = Some tok \<and>
           ((isl (strptime tok) \<and> e = ValueError) \<or>
            (\<exists>t. strptime tok = Inr t \<and>
               (timestamp env t = Inl e \<or>
                (\<exists>ts. timestamp env t = Inr ts \<and> rasterio_open env f = None \<and>
                   e = RasterioIOError f)))))"
    by (intro allI) (rule tile_coords_Inl_iff)
  from raised aborts built kinds show ?thesis
    unfolding files_def by (intro conjI)
qed

theorem init_raises_at_first_invalid_file_witness:
  "getitem (if ([] :: string list) \<noteq> [] then [] else band_names Landsat8) 0 = Some ''B1'' \<and>
   Landsat_init (example_platform [scene_A, bad_date, scene_B]) Landsat8 ''data'' [] None = Inl ValueError \<and>
   Landsat_init (example_platform [scene_A, scene_B]) Landsat8 ''data'' [] None = Inr example_dataset \<and>
   length (index example_dataset) = length [scene_A, scene_B]"
proof -
  note at = init_raises_at_first_invalid_file [OF band0_Landsat8, of _ "''data''" None]
  let ?bad = "example_platform [scene_A, bad_date, scene_B]"
  let ?good = "example_platform [scene_A, scene_B]"
  from at [of ?bad] have "\<forall>pre f post e.
        iglob ?bad (os_path_join ''data'' [base_folder Landsat8, ''**_'' @ ''B1'' @ ''.TIF'']) = pre @ f # post \<and>
        (\<forall>g \<in> set pre. \<not> isl (tile_coords ?bad g)) \<and> tile_coords ?bad f = Inl e \<longrightarrow>
        Landsat_init ?bad Landsat8 ''data'' [] None = Inl e"
    by (elim conjE)
  then have "iglob ?bad (os_path_join ''data'' [base_folder Landsat8, ''**_'' @ ''B1'' @ ''.TIF'']) =
          [scene_A] @ bad_date # [scene_B] \<and>
        (\<forall>g \<in> set [scene_A]. \<not> isl (tile_coords ?bad g)) \<and> tile_coords ?bad bad_date = Inl ValueError \<longrightarrow>
        Landsat_init ?bad Landsat8 ''data'' [] None = Inl ValueError"
    by (elim allE)
  moreover have "iglob ?bad (os_path_join ''data'' [base_folder Landsat8, ''**_'' @ ''B1'' @ ''.TIF'']) =
          [scene_A] @ bad_date # [scene_B] \<and>
        (\<forall>g \<in> set [scene_A]. \<not> isl (tile_coords ?bad g)) \<and> tile_coords ?bad bad_date = Inl ValueError"
    by (simp add: Landsat8_def iglob_example tile_coords_scene_A tile_coords_bad_date)
  ultimately have bad: "Landsat_init ?bad Landsat8 ''data'' [] None = Inl ValueError"
    by (rule mp)
  from at [of ?good] have "\<forall>self. Landsat_init ?good Landsat8 ''data'' [] None = Inr self \<longrightarrow>
        (\<forall>f \<in> set (iglob ?good (os_path_join ''data'' [base_folder Landsat8, ''**_'' @ ''B1'' @ ''.TIF''])).
           \<not> isl (tile_coords ?good f)) \<and>
        length (index self) =
          length (iglob ?good (os_path_join ''data'' [base_folder Landsat8, ''**_'' @ ''B1'' @ ''.TIF'']))"
    by (elim conjE)
  with init_example have "length (index example_dataset) =
      length (iglob ?good (os_path_join ''data'' [base_folder Landsat8, ''**_'' @ ''B1'' @ ''.TIF'']))"
    by (elim allE impE conjE)
  then have len: "length (index example_dataset) = length [scene_A, scene_B]"
    by (simp add: Landsat8_def iglob_example)
  from band0_Landsat8 bad init_example len show ?thesis by (intro conjI)
qed

text \<open>
  The claim as the specification states it (a bad file is skipped and the scan
  goes on) fails: between two valid scenes, a file without a date token, a
  file with a malformed one and a file that cannot be opened each end the
  build with an exception.
\<close>

theorem init_scan_continues_counterexample:
  "Landsat_init (example_platform [scene_A, no_date, scene_B]) Landsat8 ''data'' [] None =
     Inl (IndexError ListIndexOutOfRange) \<and>
   Landsat_init (example_platform [scene_A, bad_date, scene_B]) Landsat8 ''data'' [] None =
     Inl ValueError \<and>
   Landsat_init (example_platform [scene_A, unreadable, scene_B]) Landsat8 ''data'' [] None =
     Inl (RasterioIOError unreadable)"
  by (simp add: Landsat_init_def Landsat8_def getitem_def iglob_example
      tile_coords_scene_A tile_coords_scene_B tile_coords_no_date tile_coords_bad_date
      tile_coords_unreadable Index_insert_def)

text \<open>
  C4. A build that succeeds has inserted, for the matched file of each
  position, the record \<open>(minx, maxx, miny, maxy, ts, ts)\<close> with that file as its
  object: the bounds \<open>(minx, miny, maxx, maxy)\<close> are those the raster reports,
  and \<open>ts\<close> is the timestamp of the date that \<^verbatim>\<open>strptime(_, "%Y%m%d")\<close> reads from
  the token of index 3 of the base name split at underscores. Every record
  has \<open>mint = maxt\<close>.
\<close>

theorem init_inserts_one_record_per_file:
  assumes "Landsat_init env cls r bs tr = Inr self"
  shows
    "\<exists>b0 files.
       getitem (bands self) 0 = Some b0 \<and>
       files = iglob env (os_path_join r [base_folder cls, ''**_'' @ b0 @ ''.TIF'']) \<and>
       length (index self) = length files \<and>
       (\<forall>i < length files.
          \<exists>tok t ts rd x0 y0 x1 y1.
            getitem (split CHR ''_'' (basename (files ! i))) 3 = Some tok \<and>
            strptime tok = Inr t \<and> timestamp env t = Inr ts \<and>
            rasterio_open env (files ! i) = Some rd \<and> bounds rd = (x0, y0, x1, y1) \<and>
            index self ! i =
              \<lparr>item_id = 0,
               bbox = \<lparr>minx = x0, maxx = x1, miny = y0, maxy = y1, mint = ts, maxt = ts\<rparr>,
               object = files ! i\<rparr>) \<and>
       (\<forall>it \<in> set (index self). mint (bbox it) = maxt (bbox it))"
proof -
  from assms obtain b0 where b0: "getitem (if bs \<noteq> [] then bs else band_names cls) 0 = Some b0"
    by (cases "getitem (if bs \<noteq> [] then bs else band_names cls) 0")
      (simp_all add: Landsat_init_def Let_def)
  define files where "files = iglob env (os_path_join r [base_folder cls, ''**_'' @ b0 @ ''.TIF''])"
  from assms obtain idx where idx: "index_files env files [] = Inr idx"
    and self: "self = \<lparr>root_dir = r, bands = (if bs \<noteq> [] then bs else band_names cls),
               transforms = tr, index = idx\<rparr>"
    unfolding Landsat_init_Inr_iff [OF b0] files_def [symmetric] by blast
  from self b0 have band: "getitem (bands self) 0 = Some b0" by simp
  from self have index: "index self = idx" by simp
  have len: "length idx = length files"
    using iffD1 [OF index_files_Inr_iff, OF idx] by simp
  have each: "\<forall>i < length files.
          \<exists>tok t ts rd x0 y0 x1 y1.
            getitem (split CHR ''_'' (basename (files ! i))) 3 = Some tok \<and>
            strptime tok = Inr t \<and> timestamp env t = Inr ts \<and>
            rasterio_open env (files ! i) = Some rd \<and> bounds rd = (x0, y0, x1, y1) \<and>
            idx ! i =
              \<lparr>item_id = 0,
               bbox = \<lparr>minx = x0, maxx = x1, miny = y0, maxy = y1, mint = ts, maxt = ts\<rparr>,
               object = files ! i\<rparr>"
  proof (intro allI impI)
    fix i
    assume i: "i < length files"
    from index_files_nth [OF idx i]
    have c: "tile_coords env (files ! i) = Inr (bbox (idx ! i))"
      and it: "idx ! i = \<lparr>item_id = 0, bbox = bbox (idx ! i), object = files ! i\<rparr>"
      by blast+
    from c obtain tok t ts rd x0 y0 x1 y1 where
      h: "getitem (split CHR ''_'' (basename (files ! i))) 3 = Some tok"
        "strptime tok = Inr t" "timestamp env t = Inr ts"
        "rasterio_open env (files ! i) = Some rd" "bounds rd = (x0, y0, x1, y1)"
        "bbox (idx ! i) = \<lparr>minx = x0, maxx = x1, miny = y0, maxy = y1, mint = ts, maxt = ts\<rparr>"
      unfolding tile_coords_Inr_iff by blast
    from it h(6) have "idx ! i =
              \<lparr>item_id = 0,
               bbox = \<lparr>minx = x0, maxx = x1, miny = y0, maxy = y1, mint = ts, maxt = ts\<rparr>,
               object = files ! i\<rparr>"
      by simp
    with h(1-5) show "\<exists>tok t ts rd x0 y0 x1 y1.
            getitem (split CHR ''_'' (basename (files ! i))) 3 = Some tok \<and>
            strptime tok = Inr t \<and> timestamp env t = Inr ts \<and>
            rasterio_open env (files ! i) = Some rd \<and> bounds rd = (x0, y0, x1, y1) \<and>
            idx ! i =
              \<lparr>item_id = 0,
               bbox = \<lparr>minx = x0, maxx = x1, miny = y0, maxy = y1, mint = ts, maxt = ts\<rparr>,
               object = files ! i\<rparr>"
      by blast
  qed
  have point: "\<forall>it \<in> set idx. mint (bbox it) = maxt (bbox it)"
  proof
    fix it
    assume "it \<in> set idx"
    then obtain i where i: "i < length idx" and it: "it = idx ! i"
      by (auto simp: in_set_conv_nth)
    from i len have "i < length files" by simp
    from index_files_nth [OF idx this] have "tile_coords env (files ! i) = Inr (bbox (idx ! i))"
      by blast
    then show "mint (bbox it) = maxt (bbox it)"
      unfolding it by (rule tile_coords_point_in_time)
  qed
  from band len each point show ?thesis
    unfolding index files_def by blast
qed

theorem init_inserts_one_record_per_file_witness:
  "Landsat_init (example_platform [scene_A, scene_B]) Landsat8 ''data'' [] None = Inr example_dataset \<and>
   (\<exists>b0 files.
       getitem (bands example_dataset) 0 = Some b0 \<and>
       files = iglob (example_platform [scene_A, scene_B])
                 (os_path_join ''data'' [base_folder Landsat8, ''**_'' @ b0 @ ''.TIF'']) \<and>
       length (index example_dataset) = length files \<and>
       list_all (\<lambda>it. mint (bbox it) = maxt (bbox it)) (index example_dataset)) \<and>
   index example_dataset ! 0 =
     \<lparr>item_id = 0,
      bbox = \<lparr>minx = 0, maxx = 100, miny = 0, maxy = 100, mint = 1577836800, maxt = 1577836800\<rparr>,
      object = scene_A\<rparr>"
proof -
  from init_inserts_one_record_per_file [OF init_example]
  have "\<exists>b0 files.
       getitem (bands example_dataset) 0 = Some b0 \<and>
       files = iglob (example_platform [scene_A, scene_B])
                 (os_path_join ''data'' [base_folder Landsat8, ''**_'' @ b0 @ ''.TIF'']) \<and>
       length (index example_dataset) = length files \<and>
       list_all (\<lambda>it. mint (bbox it) = maxt (bbox it)) (index example_dataset)"
    unfolding list_all_iff by blast
  moreover have "index example_dataset ! 0 =
     \<lparr>item_id = 0,
      bbox = \<lparr>minx = 0, maxx = 100, miny = 0, maxy = 100, mint = 1577836800, maxt = 1577836800\<rparr>,
      object = scene_A\<rparr>"
    by (simp add: example_dataset_def box_A_def)
  ultimately show ?thesis using init_example by blast
qed

text \<open>
  C10. With an empty \<^verbatim>\<open>bands\<close> argument the object's \<^verbatim>\<open>bands\<close> are the class's
  \<^verbatim>\<open>band_names\<close>. In every case the files indexed are those that \<^verbatim>\<open>glob.iglob\<close>
  yields for the pattern joined from the root, the class's folder and
  \<^verbatim>\<open>**_<bands[0]>.TIF\<close> (for a plain root and folder,
  \<^verbatim>\<open>root/base_folder/**_<bands[0]>.TIF\<close>), so the index, or the exception, is
  the same for any two band lists with the same first effective band.
\<close>

theorem init_default_bands_and_file_pattern:
  "(\<forall>self. Landsat_init env cls r [] tr = Inr self \<longrightarrow> bands self = band_names cls) \<and>
   (\<forall>self. Landsat_init env cls r bs tr = Inr self \<longrightarrow>
      bands self = (if bs \<noteq> [] then bs else band_names cls) \<and>
      (\<exists>b0. getitem (bands self) 0 = Some b0 \<and>
         map object (index self) =
           iglob env (os_path_join r [base_folder cls, ''**_'' @ b0 @ ''.TIF'']))) \<and>
   (\<forall>bs'. getitem (if bs \<noteq> [] then bs else band_names cls) 0 =
            getitem (if bs' \<noteq> [] then bs' else band_names cls) 0 \<longrightarrow>
      map_sum id index (Landsat_init env cls r bs tr) =
        map_sum id index (Landsat_init env cls r bs' tr)) \<and>
   (r \<noteq> [] \<and> last r \<noteq> CHR ''/'' \<and> base_folder cls \<noteq> [] \<and>
    hd (base_folder cls) \<noteq> CHR ''/'' \<and> last (base_folder cls) \<noteq> CHR ''/'' \<longrightarrow>
      os_path_join r [base_folder cls, ''**_'' @ band0 @ ''.TIF''] =
        r @ ''/'' @ base_folder cls @ ''/'' @ ''**_'' @ band0 @ ''.TIF'')"
proof (intro conjI allI impI)
  fix self
  assume "Landsat_init env cls r [] tr = Inr self"
  from Landsat_init_index [OF this] show "bands self = band_names cls" by auto
next
  fix self
  assume ok: "Landsat_init env cls r bs tr = Inr self"
  from Landsat_init_index [OF ok] obtain b0 where
    b0: "getitem (bands self) 0 = Some b0"
    and bands: "bands self = (if bs \<noteq> [] then bs else band_names cls)"
    and idx: "index self =
       map (\<lambda>f. \<lparr>item_id = 0, bbox = projr (tile_coords env f), object = f\<rparr>)
         (iglob env (os_path_join r [base_folder cls, ''**_'' @ b0 @ ''.TIF'']))"
    by (elim exE conjE)
  from bands show "bands self = (if bs \<noteq> [] then bs else band_names cls)" .
  from idx have "map object (index self) =
      iglob env (os_path_join r [base_folder cls, ''**_'' @ b0 @ ''.TIF''])"
    by (simp add: comp_def)
  with b0 show "\<exists>b0. getitem (bands self) 0 = Some b0 \<and>
         map object (index self) =
           iglob env (os_path_join r [base_folder cls, ''**_'' @ b0 @ ''.TIF''])"
    by (intro exI conjI)
next
  fix bs'
  assume "getitem (if bs \<noteq> [] then bs else band_names cls) 0 =
            getitem (if bs' \<noteq> [] then bs' else band_names cls) 0"
  then show "map_sum id index (Landsat_init env cls r bs tr) =
        map_sum id index (Landsat_init env cls r bs' tr)"
    by (rule Landsat_init_depends_on_first_band)
next
  assume h: "r \<noteq> [] \<and> last r \<noteq> CHR ''/'' \<and> base_folder cls \<noteq> [] \<and>
    hd (base_folder cls) \<noteq> CHR ''/'' \<and> last (base_folder cls) \<noteq> CHR ''/''"
  have "take 1 (''**_'' @ band0 @ ''.TIF'') \<noteq> ''/''" by simp
  with h show "os_path_join r [base_folder cls, ''**_'' @ band0 @ ''.TIF''] =
        r @ ''/'' @ base_folder cls @ ''/'' @ ''**_'' @ band0 @ ''.TIF''"
    by (intro os_path_join_plain) simp_all
qed

theorem init_default_bands_and_file_pattern_witness:
  "Landsat_init (example_platform [scene_A, scene_B]) Landsat8 ''data'' [] None = Inr example_dataset \<and>
   bands example_dataset =
     [''B1'', ''B2'', ''B3'', ''B4'', ''B5'', ''B6'', ''B7'', ''B8'', ''B9'', ''B10'', ''B11''] \<and>
   os_path_join ''data'' [base_folder Landsat8, ''**_'' @ ''B1'' @ ''.TIF''] =
     ''data/landsat_8_9/**_B1.TIF'' \<and>
   map_sum id index
     (Landsat_init (example_platform [scene_A, scene_B]) Landsat8 ''data'' [''B1'', ''B5''] None) =
     Inr (index example_dataset)"
proof -
  note facts = init_default_bands_and_file_pattern
    [where env = "example_platform [scene_A, scene_B]" and cls = Landsat8 and r = "''data''"
       and bs = "[]" and tr = None and ?band0.0 = "''B1''"]
  from facts have "\<forall>self. Landsat_init (example_platform [scene_A, scene_B]) Landsat8 ''data'' [] None = Inr self \<longrightarrow>
      bands self = band_names Landsat8"
    by (elim conjE)
  with init_example have "bands example_dataset = band_names Landsat8"
    by (elim allE impE)
  then have one: "bands example_dataset =
     [''B1'', ''B2'', ''B3'', ''B4'', ''B5'', ''B6'', ''B7'', ''B8'', ''B9'', ''B10'', ''B11'']"
    by (simp add: Landsat8_def)
  from facts have "''data'' \<noteq> [] \<and> last ''data'' \<noteq> CHR ''/'' \<and> base_folder Landsat8 \<noteq> [] \<and>
    hd (base_folder Landsat8) \<noteq> CHR ''/'' \<and> last (base_folder Landsat8) \<noteq> CHR ''/'' \<longrightarrow>
      os_path_join ''data'' [base_folder Landsat8, ''**_'' @ ''B1'' @ ''.TIF''] =
        ''data'' @ ''/'' @ base_folder Landsat8 @ ''/'' @ ''**_'' @ ''B1'' @ ''.TIF''"
    by (elim conjE)
  moreover have "''data'' \<noteq> [] \<and> last ''data'' \<noteq> CHR ''/'' \<and> base_folder Landsat8 \<noteq> [] \<and>
    hd (base_folder Landsat8) \<noteq> CHR ''/'' \<and> last (base_folder Landsat8) \<noteq> CHR ''/''"
    by (simp add: Landsat8_def)
  ultimately have "os_path_join ''data'' [base_folder Landsat8, ''**_'' @ ''B1'' @ ''.TIF''] =
        ''data'' @ ''/'' @ base_folder Landsat8 @ ''/'' @ ''**_'' @ ''B1'' @ ''.TIF''"
    by (rule mp)
  then have two: "os_path_join ''data'' [base_folder Landsat8, ''**_'' @ ''B1'' @ ''.TIF''] =
     ''data/landsat_8_9/**_B1.TIF''"
    by (simp add: Landsat8_def)
  from facts have "\<forall>bs'. getitem (if ([] :: string list) \<noteq> [] then [] else band_names Landsat8) 0 =
            getitem (if bs' \<noteq> [] then bs' else band_names Landsat8) 0 \<longrightarrow>
      map_sum id index (Landsat_init (example_platform [scene_A, scene_B]) Landsat8 ''data'' [] None) =
        map_sum id index (Landsat_init (example_platform [scene_A, scene_B]) Landsat8 ''data'' bs' None)"
    by (elim conjE)
  then have "getitem (if ([] :: string list) \<noteq> [] then [] else band_names Landsat8) 0 =
            getitem (if [''B1'', ''B5''] \<noteq> [] then [''B1'', ''B5''] else band_names Landsat8) 0 \<longrightarrow>
      map_sum id index (Landsat_init (example_platform [scene_A, scene_B]) Landsat8 ''data'' [] None) =
        map_sum id index (Landsat_init (example_platform [scene_A, scene_B]) Landsat8 ''data'' [''B1'', ''B5''] None)"
    by (rule spec)
  moreover have "getitem (if ([] :: string list) \<noteq> [] then [] else band_names Landsat8) 0 =
            getitem (if [''B1'', ''B5''] \<noteq> [] then [''B1'', ''B5''] else band_names Landsat8) 0"
    by (simp add: getitem_def Landsat8_def)
  ultimately have "map_sum id index (Landsat_init (example_platform [scene_A, scene_B]) Landsat8 ''data'' [] None) =
        map_sum id index (Landsat_init (example_platform [scene_A, scene_B]) Landsat8 ''data'' [''B1'', ''B5''] None)"
    by (rule mp)
  then have three: "map_sum id index
     (Landsat_init (example_platform [scene_A, scene_B]) Landsat8 ''data'' [''B1'', ''B5''] None) =
     Inr (index example_dataset)"
    by (simp add: init_example)
  from init_example one two three show ?thesis by (intro conjI)
qed

end
